theory Spec2Isabelle
  imports Main
begin

section \<open>JavaScript string primitives\<close>

text \<open>
  Strings are byte strings (UTF-8); every index and length used below lies in ASCII
  text, where JavaScript's UTF-16 units and bytes coincide.
\<close>

fun startsWith :: "string \<Rightarrow> string \<Rightarrow> bool" where
  "startsWith s [] = True"
| "startsWith [] (p # ps) = False"
| "startsWith (c # cs) (p # ps) = (c = p \<and> startsWith cs ps)"

text \<open>\<open>s.indexOf(p)\<close>; \<open>None\<close> stands for \<open>-1\<close>.\<close>

fun indexOf :: "string \<Rightarrow> string \<Rightarrow> nat option" where
  "indexOf [] p = (if p = [] then Some 0 else None)"
| "indexOf (c # cs) p =
     (if startsWith (c # cs) p then Some 0 else map_option Suc (indexOf cs p))"

definition str_includes :: "string \<Rightarrow> string \<Rightarrow> bool" where
  "str_includes s p = (indexOf s p \<noteq> None)"

text \<open>\<open>s.replace(p, '')\<close> with a string pattern: only the first occurrence goes.\<close>

definition removeFirst :: "string \<Rightarrow> string \<Rightarrow> string" where
  "removeFirst s p =
     (case indexOf s p of None \<Rightarrow> s | Some i \<Rightarrow> take i s @ drop (i + length p) s)"

text \<open>\<open>s.replace(/<\/?p>/g, '')\<close>: every \<open><p>\<close> and \<open></p>\<close> goes, scanning left to right.\<close>

function stripP :: "string \<Rightarrow> string" where
  "stripP [] = []"
| "stripP (c # cs) =
     (if startsWith (c # cs) ''<p>'' then stripP (drop 2 cs)
      else if startsWith (c # cs) ''</p>'' then stripP (drop 3 cs)
      else c # stripP cs)"
  by pat_completeness auto
termination
  by (relation "measure length") auto

section \<open>Converter.setupMarked: the custom renderer\<close>

text \<open>
  \<open>renderer.blockquote\<close> receives the already rendered inner HTML of the quote,
  \<open>renderer.strong\<close> and \<open>renderer.em\<close> the rendered inner text of the span.
\<close>

definition blockquote :: "string \<Rightarrow> string" where
  \<open>blockquote quote =
     (if str_includes quote ''**Example**:'' then
        ''<div class="example">'' @ stripP (removeFirst quote ''**Example**: '') @ ''</div>''
      else if str_includes quote ''**Note**:'' then
        ''<div class="note">'' @ stripP (removeFirst quote ''**Note**: '') @ ''</div>''
      else if str_includes quote ''**Grammar**:'' then
        ''<div class="grammar-point">'' @ stripP (removeFirst quote ''**Grammar**: '') @ ''</div>''
      else ''<blockquote>'' @ quote @ ''</blockquote>'')\<close>

definition strong :: "string \<Rightarrow> string" where
  \<open>strong txt = ''<span class="japanese">'' @ txt @ ''</span>''\<close>

definition em :: "string \<Rightarrow> string" where
  \<open>em txt = ''<span class="chinese">'' @ txt @ ''</span>''\<close>

definition table :: "string \<Rightarrow> string \<Rightarrow> string" where
  \<open>table header body =
     ''<table>\<newline>        <thead>'' @ header @ ''</thead>\<newline>        <tbody>'' @ body
       @ ''</tbody>\<newline>      </table>''\<close>

section \<open>Regular expressions used by the converter\<close>

lemma length_tl_dropWhile_le: "length (tl (dropWhile P xs)) \<le> length xs"
  using length_dropWhile_le [of P xs] by simp

text \<open>\<open>s.replace(/<[^>]*>/g, '')\<close>: a \<open><\<close> with a later \<open>>\<close> goes with everything up to it.\<close>

function stripTags :: "string \<Rightarrow> string" where
  "stripTags [] = []"
| "stripTags (c # cs) =
     (if c = CHR ''<'' \<and> CHR ''>'' \<in> set cs
      then stripTags (tl (dropWhile (\<lambda>x. x \<noteq> CHR ''>'') cs))
      else c # stripTags cs)"
  by pat_completeness auto
termination
proof (relation "measure length")
  fix c :: char and cs :: string
  assume "c = CHR ''<'' \<and> CHR ''>'' \<in> set cs"
  have "length (tl (dropWhile (\<lambda>x. x \<noteq> CHR ''>'') cs)) \<le> length cs"
    by (rule length_tl_dropWhile_le)
  then show "(tl (dropWhile (\<lambda>x. x \<noteq> CHR ''>'') cs), c # cs) \<in> measure length"
    by simp
qed simp_all

text \<open>
  Without the \<open>s\<close> flag, \<open>.\<close> matches everything but a line terminator: LF, CR,
  U+2028 and U+2029 (\<open>E2 80 A8\<close> and \<open>E2 80 A9\<close> in UTF-8).
\<close>

definition lineTerminatorAt :: "string \<Rightarrow> bool" where
  "lineTerminatorAt s =
     (startsWith s [CHR 0x0A] \<or> startsWith s [CHR 0x0D]
      \<or> startsWith s [CHR 0xE2, CHR 0x80, CHR 0xA8]
      \<or> startsWith s [CHR 0xE2, CHR 0x80, CHR 0xA9])"

text \<open>
  \<open>/<h([2-6])[^>]*>(.*?)<\/h[2-6]>/g\<close>. A match is the text of the whole match
  (\<open>whole\<close>), the digit of group 1 and the text of group 2.
\<close>

definition isHeadingDigit :: "char \<Rightarrow> bool" where
  "isHeadingDigit c = (c \<in> set ''23456'')"

record hmatch =
  whole :: string
  levelDigit :: char
  inner :: string

fun closeTagAt :: "string \<Rightarrow> bool" where
  "closeTagAt (a # b # c # d # e # r) =
     (a = CHR ''<'' \<and> b = CHR ''/'' \<and> c = CHR ''h'' \<and> isHeadingDigit d \<and> e = CHR ''>'')"
| "closeTagAt r = False"

text \<open>
  \<open>(.*?)<\/h[2-6]>\<close>: the shortest run of non-terminators followed by a closing tag;
  the result is group 2, the closing tag and what follows it.
\<close>

fun lazyText :: "string \<Rightarrow> (string \<times> string \<times> string) option" where
  "lazyText [] = None"
| "lazyText (c # cs) =
     (if closeTagAt (c # cs) then Some ([], take 5 (c # cs), drop 5 (c # cs))
      else if lineTerminatorAt (c # cs) then None
      else map_option (\<lambda>(t, cl, r). (c # t, cl, r)) (lazyText cs))"

text \<open>
  A match starting at the head of the string. \<open>[^>]*\<close> is greedy, and giving back a
  character never helps, since the next one must be \<open>>\<close>: the opening tag ends at the
  first \<open>>\<close>.
\<close>

fun matchHeadingAt :: "string \<Rightarrow> (hmatch \<times> string) option" where
  "matchHeadingAt (a # b # d # r) =
     (if a = CHR ''<'' \<and> b = CHR ''h'' \<and> isHeadingDigit d \<and> CHR ''>'' \<in> set r then
        (case lazyText (tl (dropWhile (\<lambda>x. x \<noteq> CHR ''>'') r)) of
           None \<Rightarrow> None
         | Some (t, cl, rest) \<Rightarrow>
             Some (\<lparr>whole = [a, b, d] @ takeWhile (\<lambda>x. x \<noteq> CHR ''>'') r @ ''>'' @ t @ cl,
                    levelDigit = d, inner = t\<rparr>, rest))
      else None)"
| "matchHeadingAt r = None"

lemma lazyText_shorter: "lazyText s = Some (t, cl, r) \<Longrightarrow> length r < length s"
proof (induction s arbitrary: t)
  case Nil
  then show ?case by simp
next
  case (Cons c cs)
  show ?case
  proof (cases "closeTagAt (c # cs)")
    case True
    then obtain b1 b2 b3 b4 r' where "cs = b1 # b2 # b3 # b4 # r'"
      by (cases "c # cs" rule: closeTagAt.cases) auto
    with True Cons.prems show ?thesis by auto
  next
    case False
    with Cons.prems obtain t' where "lazyText cs = Some (t', cl, r)"
      by (auto split: if_splits)
    from Cons.IH [OF this] show ?thesis by simp
  qed
qed

lemma matchHeadingAt_shorter:
  assumes "matchHeadingAt s = Some (m, rest)"
  shows "length rest < length s"
proof (cases s rule: matchHeadingAt.cases)
  case (1 a b d r)
  with assms obtain t cl where
    lt: "lazyText (tl (dropWhile (\<lambda>x. x \<noteq> CHR ''>'') r)) = Some (t, cl, rest)"
    by (auto split: if_splits option.splits)
  have "length (tl (dropWhile (\<lambda>x. x \<noteq> CHR ''>'') r)) \<le> length r"
    by (rule length_tl_dropWhile_le)
  with lazyText_shorter [OF lt] 1 show ?thesis by simp
qed (use assms in simp_all)

text \<open>
  The scan of a global replace: at each position the expression is tried; a match is
  handed to the callback and the scan goes on behind it, anything else is copied.
\<close>

datatype piece = Plain char | Heading hmatch

function scanHeadings :: "string \<Rightarrow> piece list" where
  "scanHeadings [] = []"
| "scanHeadings (c # cs) =
     (case matchHeadingAt (c # cs) of
        Some (m, rest) \<Rightarrow> Heading m # scanHeadings rest
      | None \<Rightarrow> Plain c # scanHeadings cs)"
  by pat_completeness auto
termination
  by (relation "measure length") (auto dest: matchHeadingAt_shorter)

section \<open>Converter.generateTOC\<close>

record heading =
  h_level :: nat
  h_text :: string
  h_id :: string

text \<open>The decimal digits of a number, as a template literal prints a counter.\<close>

function showNat :: "nat \<Rightarrow> string" where
  "showNat n =
     (if n < 10 then [''0123456789'' ! n]
      else showNat (n div 10) @ [''0123456789'' ! (n mod 10)])"
  by pat_completeness auto
termination
  by (relation "measure id") auto

declare showNat.simps [simp del]

text \<open>\<open>parseInt\<close> of the one digit that group 1 holds.\<close>

definition parseInt :: "char \<Rightarrow> nat" where
  "parseInt c = of_char c - 48"

definition backToTopLink :: string where
  \<open>backToTopLink =
     ''<div class="back-to-top"><a href="javascript:void(0)" onclick="document.querySelector('.toc-toggle').scrollIntoView(); toggleTOC();">''
     @ [CHR 0xE2, CHR 0x86, CHR 0x91] @ '' ''
     @ [CHR 0xE8, CHR 0xBF, CHR 0x94, CHR 0xE5, CHR 0x9B, CHR 0x9E, CHR 0xE7, CHR 0x9B, CHR 0xAE,
        CHR 0xE9, CHR 0x8C, CHR 0x84]
     @ '' / Back to TOC</a></div>''\<close>

text \<open>
  \<open>match.replace(/^<h(\d)/, `<h$1 id="${id}"`)\<close>: the id goes behind the tag name of
  a text that starts with \<open><h\<close> and a digit.
\<close>

definition isDigit :: "char \<Rightarrow> bool" where
  "isDigit c = (c \<in> set ''0123456789'')"

fun addId :: "string \<Rightarrow> string \<Rightarrow> string" where
  \<open>addId (a # b # d # r) ident =
     (if a = CHR ''<'' \<and> b = CHR ''h'' \<and> isDigit d
      then [a, b, d] @ '' id="'' @ ident @ ''"'' @ r
      else a # b # d # r)\<close>
| \<open>addId r ident = r\<close>

text \<open>
  The callback of the replace, for one match and the counter's value: the TOC entry it
  pushes (none below level 3) and the text that replaces the match.
\<close>

definition headingId :: "nat \<Rightarrow> string" where
  "headingId counter = ''heading-'' @ showNat counter"

definition tocEntry :: "nat \<Rightarrow> hmatch \<Rightarrow> heading list" where
  "tocEntry counter m =
     (let cleanText = stripTags (inner m);
          levelNum = parseInt (levelDigit m)
      in if levelNum \<le> 3
         then [\<lparr>h_level = levelNum, h_text = cleanText, h_id = headingId counter\<rparr>]
         else [])"

definition rewriteHeading :: "nat \<Rightarrow> hmatch \<Rightarrow> string" where
  "rewriteHeading counter m =
     (let levelNum = parseInt (levelDigit m);
          backToTop = (if levelNum = 2 then backToTopLink else [])
      in addId (whole m) (headingId counter) @ backToTop)"

text \<open>The replace over the scanned content; the counter goes up at every match.\<close>

fun replaceHeadings :: "nat \<Rightarrow> piece list \<Rightarrow> heading list \<times> string" where
  "replaceHeadings counter [] = ([], [])"
| "replaceHeadings counter (Plain c # ps) =
     (let (headings, out) = replaceHeadings counter ps in (headings, c # out))"
| "replaceHeadings counter (Heading m # ps) =
     (let (headings, out) = replaceHeadings (Suc counter) ps
      in (tocEntry counter m @ headings, rewriteHeading counter m @ out))"

text \<open>
  The TOC markup is a sequence of appended texts: the opening of the dropdown, which ends
  with the outer \<open><ul>\<close>, the nested lists' tags, the entries, and the closing text,
  which starts with \<open></ul>\<close>.
\<close>

datatype tocToken = TocOpen | UlOpen | UlClose | Li heading | TocClose

definition tocHeader :: string where
  \<open>tocHeader =
     ''\<newline>'' @
     ''    <div class="toc-dropdown">\<newline>'' @
     ''      <button class="toc-toggle" onclick="toggleTOC()">\<newline>'' @
     ''        <span class="toc-icon">'' @ [CHR 0xE2, CHR 0x98, CHR 0xB0] @ ''</span>\<newline>'' @
     ''        '' @ [CHR 0xE7, CHR 0x9B, CHR 0xAE, CHR 0xE9, CHR 0x8C, CHR 0x84] @ '' / Table of Contents\<newline>'' @
     ''        <span class="toc-arrow">'' @ [CHR 0xE2, CHR 0x96, CHR 0xBC] @ ''</span>\<newline>'' @
     ''      </button>\<newline>'' @
     ''      <div class="toc-content" id="toc-content">\<newline>'' @
     ''        <ul>''\<close>

definition tocFooter :: string where
  \<open>tocFooter =
     ''\<newline>'' @
     ''        </ul>\<newline>'' @
     ''      </div>\<newline>'' @
     ''    </div>\<newline>'' @
     ''    <script>\<newline>'' @
     ''      function toggleTOC() {\<newline>'' @
     ''        const content = document.getElementById('toc-content');\<newline>'' @
     ''        const arrow = document.querySelector('.toc-arrow');\<newline>'' @
     ''        const isOpen = content.style.display === 'block';\<newline>'' @
     ''        content.style.display = isOpen ? 'none' : 'block';\<newline>'' @
     ''        arrow.textContent = isOpen ? '' @ [CHR 0x27, CHR 0xE2, CHR 0x96, CHR 0xBC, CHR 0x27] @ '' : '' @ [CHR 0x27, CHR 0xE2, CHR 0x96, CHR 0xB2, CHR 0x27] @ '';\<newline>'' @
     ''      }\<newline>'' @
     ''      \<newline>'' @
     ''      function closeTOC() {\<newline>'' @
     ''        const content = document.getElementById('toc-content');\<newline>'' @
     ''        const arrow = document.querySelector('.toc-arrow');\<newline>'' @
     ''        content.style.display = 'none';\<newline>'' @
     ''        arrow.textContent = '' @ [CHR 0x27, CHR 0xE2, CHR 0x96, CHR 0xBC, CHR 0x27] @ '';\<newline>'' @
     ''      }\<newline>'' @
     ''      \<newline>'' @
     ''      // Close TOC when clicking outside\<newline>'' @
     ''      document.addEventListener('click', function(event) {\<newline>'' @
     ''        const toc = document.querySelector('.toc-dropdown');\<newline>'' @
     ''        if (!toc.contains(event.target)) {\<newline>'' @
     ''          closeTOC();\<newline>'' @
     ''        }\<newline>'' @
     ''      });\<newline>'' @
     ''    </script>''\<close>

fun renderToken :: "tocToken \<Rightarrow> string" where
  \<open>renderToken TocOpen = tocHeader\<close>
| \<open>renderToken UlOpen = ''<ul>''\<close>
| \<open>renderToken UlClose = ''</ul>''\<close>
| \<open>renderToken (Li h) =
     ''<li><a href="#'' @ h_id h @ ''" onclick="closeTOC()">'' @ h_text h @ ''</a></li>''\<close>
| \<open>renderToken TocClose = tocFooter\<close>

text \<open>
  The \<open>forEach\<close> over the collected headings, from the cursor \<open>currentLevel\<close>:
  \<open>for (i = currentLevel; i < heading.level; i++)\<close> opens \<open>level - currentLevel\<close>
  lists, \<open>for (i = heading.level; i < currentLevel; i++)\<close> closes
  \<open>currentLevel - level\<close>. Behind the last heading,
  \<open>for (i = 2; i <= currentLevel; i++)\<close> appends \<open></ul>\<close> once for each \<open>i\<close> of
  \<open>2 .. currentLevel\<close>.
\<close>

fun tocItems :: "nat \<Rightarrow> heading list \<Rightarrow> tocToken list" where
  "tocItems currentLevel [] = replicate (Suc currentLevel - 2) UlClose"
| "tocItems currentLevel (h # hs) =
     (if h_level h > currentLevel then replicate (h_level h - currentLevel) UlOpen
      else if h_level h < currentLevel then replicate (currentLevel - h_level h) UlClose
      else [])
     @ [Li h] @ tocItems (h_level h) hs"

definition tocTokens :: "heading list \<Rightarrow> tocToken list" where
  "tocTokens headings = [TocOpen] @ tocItems 2 headings @ [TocClose]"

definition tocHtml :: "heading list \<Rightarrow> string" where
  "tocHtml headings = concat (map renderToken (tocTokens headings))"

text \<open>The result \<open>{ toc, content }\<close> as a pair.\<close>

definition generateTOC :: "string \<Rightarrow> string \<times> string" where
  "generateTOC content =
     (let (headings, processedContent) = replaceHeadings 0 (scanHeadings content)
      in if headings = [] then ([], processedContent)
         else (tocHtml headings, processedContent))"

subsection \<open>Identifiers and the collected TOC list\<close>

text \<open>The matches of the heading expression, in document order.\<close>

fun headingsOf :: "piece list \<Rightarrow> hmatch list" where
  "headingsOf [] = []"
| "headingsOf (Plain c # ps) = headingsOf ps"
| "headingsOf (Heading m # ps) = m # headingsOf ps"

definition levelOf :: "hmatch \<Rightarrow> nat" where
  "levelOf m = parseInt (levelDigit m)"

text \<open>The entries of a TOC markup, in the order they are appended.\<close>

fun entriesOf :: "tocToken list \<Rightarrow> heading list" where
  "entriesOf [] = []"
| "entriesOf (Li h # ts) = h # entriesOf ts"
| "entriesOf (t # ts) = entriesOf ts"

lemma isHeadingDigit_level: "isHeadingDigit d \<Longrightarrow> 2 \<le> parseInt d \<and> parseInt d \<le> 6"
  by (auto simp: isHeadingDigit_def parseInt_def)

lemma matchHeadingAt_digit:
  "matchHeadingAt s = Some (m, rest) \<Longrightarrow> isHeadingDigit (levelDigit m)"
  by (cases s rule: matchHeadingAt.cases) (auto split: if_splits option.splits)

lemma scanHeadings_digits:
  "list_all (\<lambda>m. isHeadingDigit (levelDigit m)) (headingsOf (scanHeadings s))"
proof (induction s rule: scanHeadings.induct)
  case 1
  then show ?case by simp
next
  case (2 c cs)
  then show ?case
    by (cases "matchHeadingAt (c # cs)") (auto dest: matchHeadingAt_digit)
qed

lemma scanHeadings_levels:
  "list_all (\<lambda>m. 2 \<le> levelOf m \<and> levelOf m \<le> 6) (headingsOf (scanHeadings s))"
  using scanHeadings_digits [of s]
  by (auto simp: list_all_iff levelOf_def dest: isHeadingDigit_level)

text \<open>The pieces of a scan are the scanned text: a match is a part of it.\<close>

lemma lazyText_decomp: "lazyText s = Some (t, cl, r) \<Longrightarrow> s = t @ cl @ r"
proof (induction s arbitrary: t)
  case Nil
  then show ?case by simp
next
  case (Cons c cs)
  show ?case
  proof (cases "closeTagAt (c # cs)")
    case True
    with Cons.prems show ?thesis by auto
  next
    case False
    with Cons.prems obtain t' where "lazyText cs = Some (t', cl, r)" "t = c # t'"
      by (auto split: if_splits)
    with Cons.IH [of t'] show ?thesis by simp
  qed
qed

lemma matchHeadingAt_decomp:
  assumes "matchHeadingAt s = Some (m, rest)"
  shows "s = whole m @ rest"
proof (cases s rule: matchHeadingAt.cases)
  case (1 a b d r)
  let ?P = "\<lambda>x. x \<noteq> CHR ''>''"
  from assms 1 have gt: "CHR ''>'' \<in> set r"
    by (auto split: if_splits)
  then have "dropWhile ?P r \<noteq> []" by auto
  moreover have "hd (dropWhile ?P r) = CHR ''>''"
    using gt hd_dropWhile [of ?P r] by auto
  ultimately have dw: "dropWhile ?P r = CHR ''>'' # tl (dropWhile ?P r)"
    by (cases "dropWhile ?P r") auto
  from assms 1 gt obtain t cl where
    lt: "lazyText (tl (dropWhile ?P r)) = Some (t, cl, rest)"
    and w: "whole m = [a, b, d] @ takeWhile ?P r @ ''>'' @ t @ cl"
    by (auto split: if_splits option.splits)
  have "r = takeWhile ?P r @ dropWhile ?P r" by simp
  also have "\<dots> = takeWhile ?P r @ CHR ''>'' # t @ cl @ rest"
    using dw lazyText_decomp [OF lt] by simp
  finally have "r = takeWhile ?P r @ CHR ''>'' # t @ cl @ rest" .
  with 1 w show ?thesis by (metis append.assoc append_Cons append_Nil)
qed (use assms in simp_all)

lemma scanHeadings_concat: "concat (map (\<lambda>p. case p of Plain c \<Rightarrow> [c] | Heading m \<Rightarrow> whole m) (scanHeadings s)) = s"
proof (induction s rule: scanHeadings.induct)
  case 1
  show ?case by simp
next
  case (2 c cs)
  then show ?case
    by (cases "matchHeadingAt (c # cs)") (auto dest: matchHeadingAt_decomp)
qed

text \<open>A match starts with \<open><h\<close> and its digit, and \<open>addId\<close> puts the id behind them.\<close>

lemma addId_match:
  assumes "matchHeadingAt s = Some (m, rest)"
  shows "take 3 (whole m) = ''<h'' @ [levelDigit m]
       \<and> (\<forall>ident. addId (whole m) ident
            = take 3 (whole m) @ '' id='' @ [CHR 0x22] @ ident @ [CHR 0x22] @ drop 3 (whole m))"
proof (cases s rule: matchHeadingAt.cases)
  case (1 a b d r)
  with assms have "a = CHR ''<''" "b = CHR ''h''" "isHeadingDigit d"
    by (auto split: if_splits)
  moreover from this have "isDigit d"
    by (auto simp: isHeadingDigit_def isDigit_def)
  ultimately show ?thesis
    using assms 1 by (auto split: if_splits option.splits)
qed (use assms in simp_all)

lemma scanHeadings_tags:
  "list_all (\<lambda>m. take 3 (whole m) = ''<h'' @ [levelDigit m]
       \<and> (\<forall>ident. addId (whole m) ident
            = take 3 (whole m) @ '' id='' @ [CHR 0x22] @ ident @ [CHR 0x22] @ drop 3 (whole m)))
     (headingsOf (scanHeadings s))"
proof (induction s rule: scanHeadings.induct)
  case 1
  then show ?case by simp
next
  case (2 c cs)
  then show ?case
    by (cases "matchHeadingAt (c # cs)") (auto dest: addId_match)
qed

lemma map2_pieces_cong:
  "list_all P (headingsOf ps) \<Longrightarrow> (\<And>m k. P m \<Longrightarrow> f m k = g m k) \<Longrightarrow>
     map2 (\<lambda>p k. case p of Plain c \<Rightarrow> [c] | Heading m \<Rightarrow> f m k) ps ks
       = map2 (\<lambda>p k. case p of Plain c \<Rightarrow> [c] | Heading m \<Rightarrow> g m k) ps ks"
proof (induction ps arbitrary: ks)
  case Nil
  show ?case by simp
next
  case (Cons p ps)
  then show ?case by (cases ks; cases p) auto
qed

text \<open>
  The counter that a match sees is the start value plus the number of matches before it:
  the collected list numbers the matches from the start value and keeps levels 2 and 3.
\<close>

lemma replaceHeadings_fst:
  "fst (replaceHeadings n ps) =
     map (\<lambda>(i, m). \<lparr>h_level = levelOf m, h_text = stripTags (inner m), h_id = headingId i\<rparr>)
       (filter (\<lambda>(i, m). levelOf m \<le> 3) (enumerate n (headingsOf ps)))"
  by (induction n ps rule: replaceHeadings.induct)
     (auto simp: tocEntry_def levelOf_def Let_def split: prod.splits)

lemma upt_Suc_shift: "[0..<Suc n] = 0 # map Suc [0..<n]"
  by (simp add: upt_conv_Cons map_Suc_upt del: upt_Suc)

lemma replaceHeadings_snd:
  "snd (replaceHeadings n ps) =
     concat (map2 (\<lambda>p k. case p of Plain c \<Rightarrow> [c] | Heading m \<Rightarrow> rewriteHeading k m) ps
       (map (\<lambda>k. n + length (headingsOf (take k ps))) [0..<length ps]))"
proof (induction n ps rule: replaceHeadings.induct)
  case (1 counter)
  then show ?case by simp
next
  case (2 counter c ps)
  then show ?case
    by (simp add: upt_Suc_shift split_beta o_def del: upt_Suc)
next
  case (3 counter m ps)
  then show ?case
    by (simp add: upt_Suc_shift split_beta o_def del: upt_Suc)
qed

lemma entriesOf_replicate:
  "entriesOf (replicate n UlOpen @ ts) = entriesOf ts"
  "entriesOf (replicate n UlClose @ ts) = entriesOf ts"
  by (induction n) auto

lemma entriesOf_tocItems: "entriesOf (tocItems cur hs) = hs"
proof (induction hs arbitrary: cur)
  case Nil
  show ?case using entriesOf_replicate(2) [of "Suc cur - 2" "[]"] by simp
next
  case (Cons h hs)
  then show ?case by (simp add: entriesOf_replicate)
qed

lemma entriesOf_tocTokens: "entriesOf (tocTokens hs) = hs"
proof -
  have "entriesOf (ts @ [TocClose]) = entriesOf ts" for ts
    by (induction ts rule: entriesOf.induct) auto
  then show ?thesis by (simp add: tocTokens_def entriesOf_tocItems)
qed

lemma filter_levels:
  "list_all (\<lambda>m. 2 \<le> levelOf m) ms \<Longrightarrow>
     filter (\<lambda>(i, m). levelOf m \<le> 3) (enumerate n ms)
       = filter (\<lambda>(i, m). levelOf m = 2 \<or> levelOf m = 3) (enumerate n ms)"
  by (induction ms arbitrary: n) auto

text \<open>
  C4. In \<open>generateTOC\<close>, the content is cut into the matches of the heading
  expression and the characters between them. Every match is a heading of level 2 to 6
  and starts with \<open><h\<close> and its digit. In the returned content, the match with \<open>k\<close>
  matches before it in the document has \<open> id="heading-k"\<close> put behind its tag name,
  whatever its level (a heading of level 2 is followed by the link back to the TOC), and
  everything else is as it was. The list that the TOC is built from holds the matches of
  levels 2 and 3, in document order, each with that id and with its text stripped of
  tags; and the TOC markup has exactly these entries, in this order.
\<close>

theorem generateTOC_ids_in_document_order:
  \<open>concat (map (\<lambda>p. case p of Plain c \<Rightarrow> [c] | Heading m \<Rightarrow> whole m) (scanHeadings content))
     = content
   \<and> list_all (\<lambda>m. 2 \<le> levelOf m \<and> levelOf m \<le> 6 \<and> take 3 (whole m) = ''<h'' @ [levelDigit m])
       (headingsOf (scanHeadings content))
   \<and> snd (generateTOC content) =
       concat (map2 (\<lambda>p k. case p of Plain c \<Rightarrow> [c]
                            | Heading m \<Rightarrow>
                                take 3 (whole m) @ '' id="heading-'' @ showNat k @ ''"''
                                @ drop 3 (whole m)
                                @ (if levelOf m = 2 then backToTopLink else []))
         (scanHeadings content)
         (map (\<lambda>k. length (headingsOf (take k (scanHeadings content))))
            [0..<length (scanHeadings content)]))
   \<and> fst (replaceHeadings 0 (scanHeadings content)) =
       map (\<lambda>(i, m). \<lparr>h_level = levelOf m, h_text = stripTags (inner m),
                       h_id = ''heading-'' @ showNat i\<rparr>)
         (filter (\<lambda>(i, m). levelOf m = 2 \<or> levelOf m = 3)
            (enumerate 0 (headingsOf (scanHeadings content))))
   \<and> fst (generateTOC content) =
       (if fst (replaceHeadings 0 (scanHeadings content)) = [] then []
        else concat (map renderToken (tocTokens (fst (replaceHeadings 0 (scanHeadings content))))))
   \<and> entriesOf (tocTokens (fst (replaceHeadings 0 (scanHeadings content))))
       = fst (replaceHeadings 0 (scanHeadings content))\<close>
proof (intro conjI)
  let ?ps = "scanHeadings content"
  let ?ms = "headingsOf ?ps"
  let ?ks = "map (\<lambda>k. length (headingsOf (take k ?ps))) [0..<length ?ps]"
  show "concat (map (\<lambda>p. case p of Plain c \<Rightarrow> [c] | Heading m \<Rightarrow> whole m) ?ps) = content"
    by (rule scanHeadings_concat)
  have lv: "list_all (\<lambda>m. 2 \<le> levelOf m \<and> levelOf m \<le> 6) ?ms"
    by (rule scanHeadings_levels)
  have tg: \<open>list_all (\<lambda>m. take 3 (whole m) = ''<h'' @ [levelDigit m]
       \<and> (\<forall>ident. addId (whole m) ident
            = take 3 (whole m) @ '' id='' @ [CHR 0x22] @ ident @ [CHR 0x22] @ drop 3 (whole m)))
     ?ms\<close>
    by (rule scanHeadings_tags)
  from lv tg
  show "list_all (\<lambda>m. 2 \<le> levelOf m \<and> levelOf m \<le> 6 \<and> take 3 (whole m) = ''<h'' @ [levelDigit m])
      ?ms"
    by (simp add: list_all_iff)
  have "snd (generateTOC content) = snd (replaceHeadings 0 ?ps)"
    by (simp add: generateTOC_def split_beta)
  also have "\<dots> = concat (map2 (\<lambda>p k. case p of Plain c \<Rightarrow> [c] | Heading m \<Rightarrow> rewriteHeading k m)
      ?ps ?ks)"
    by (simp add: replaceHeadings_snd [of 0 ?ps] del: upt_Suc)
  also have \<open>map2 (\<lambda>p k. case p of Plain c \<Rightarrow> [c] | Heading m \<Rightarrow> rewriteHeading k m) ?ps ?ks
      = map2 (\<lambda>p k. case p of Plain c \<Rightarrow> [c]
                     | Heading m \<Rightarrow>
                         take 3 (whole m) @ '' id="heading-'' @ showNat k @ ''"''
                         @ drop 3 (whole m)
                         @ (if levelOf m = 2 then backToTopLink else []))
          ?ps ?ks\<close>
    by (rule map2_pieces_cong [OF tg])
       (simp add: rewriteHeading_def headingId_def levelOf_def)
  finally show \<open>snd (generateTOC content) =
       concat (map2 (\<lambda>p k. case p of Plain c \<Rightarrow> [c]
                            | Heading m \<Rightarrow>
                                take 3 (whole m) @ '' id="heading-'' @ showNat k @ ''"''
                                @ drop 3 (whole m)
                                @ (if levelOf m = 2 then backToTopLink else []))
         ?ps ?ks)\<close> .
  from lv have "list_all (\<lambda>m. 2 \<le> levelOf m) ?ms"
    by (simp add: list_all_iff)
  then have "filter (\<lambda>(i, m). levelOf m \<le> 3) (enumerate 0 ?ms)
      = filter (\<lambda>(i, m). levelOf m = 2 \<or> levelOf m = 3) (enumerate 0 ?ms)"
    by (rule filter_levels)
  then show "fst (replaceHeadings 0 ?ps) =
       map (\<lambda>(i, m). \<lparr>h_level = levelOf m, h_text = stripTags (inner m),
                       h_id = ''heading-'' @ showNat i\<rparr>)
         (filter (\<lambda>(i, m). levelOf m = 2 \<or> levelOf m = 3) (enumerate 0 ?ms))"
    by (simp add: replaceHeadings_fst [of 0 ?ps] headingId_def)
  show "fst (generateTOC content) =
       (if fst (replaceHeadings 0 ?ps) = [] then []
        else concat (map renderToken (tocTokens (fst (replaceHeadings 0 ?ps)))))"
    by (simp add: generateTOC_def tocHtml_def split_beta)
  show "entriesOf (tocTokens (fst (replaceHeadings 0 ?ps))) = fst (replaceHeadings 0 ?ps)"
    by (rule entriesOf_tocTokens)
qed

theorem generateTOC_ids_witness:
  \<open>snd (generateTOC ''<h2>A</h2>x<h4>B</h4><h3><b>C</b></h3>'') =
     ''<h2 id="heading-0">A</h2>'' @ backToTopLink
     @ ''x<h4 id="heading-1">B</h4><h3 id="heading-2"><b>C</b></h3>''
   \<and> fst (replaceHeadings 0 (scanHeadings ''<h2>A</h2>x<h4>B</h4><h3><b>C</b></h3>'')) =
     [\<lparr>h_level = 2, h_text = ''A'', h_id = ''heading-0''\<rparr>,
      \<lparr>h_level = 3, h_text = ''C'', h_id = ''heading-2''\<rparr>]\<close>
proof -
  let ?c = \<open>''<h2>A</h2>x<h4>B</h4><h3><b>C</b></h3>''\<close>
  have ps: \<open>scanHeadings ?c =
   [Heading \<lparr>whole = ''<h2>A</h2>'', levelDigit = CHR ''2'', inner = ''A''\<rparr>,
    Plain CHR ''x'',
    Heading \<lparr>whole = ''<h4>B</h4>'', levelDigit = CHR ''4'', inner = ''B''\<rparr>,
    Heading \<lparr>whole = ''<h3><b>C</b></h3>'', levelDigit = CHR ''3'', inner = ''<b>C</b>''\<rparr>]\<close>
    by (simp add: isHeadingDigit_def lineTerminatorAt_def)
  note t = generateTOC_ids_in_document_order [of ?c]
  from t have \<open>snd (generateTOC ?c) =
       concat (map2 (\<lambda>p k. case p of Plain c \<Rightarrow> [c]
                            | Heading m \<Rightarrow>
                                take 3 (whole m) @ '' id="heading-'' @ showNat k @ ''"''
                                @ drop 3 (whole m)
                                @ (if levelOf m = 2 then backToTopLink else []))
         (scanHeadings ?c)
         (map (\<lambda>k. length (headingsOf (take k (scanHeadings ?c))))
            [0..<length (scanHeadings ?c)]))\<close>
    by blast
  then have \<open>snd (generateTOC ?c) =
     ''<h2 id="heading-0">A</h2>'' @ backToTopLink
     @ ''x<h4 id="heading-1">B</h4><h3 id="heading-2"><b>C</b></h3>''\<close>
    unfolding ps by (simp add: levelOf_def parseInt_def showNat.simps)
  moreover from t have \<open>fst (replaceHeadings 0 (scanHeadings ?c)) =
       map (\<lambda>(i, m). \<lparr>h_level = levelOf m, h_text = stripTags (inner m),
                       h_id = ''heading-'' @ showNat i\<rparr>)
         (filter (\<lambda>(i, m). levelOf m = 2 \<or> levelOf m = 3)
            (enumerate 0 (headingsOf (scanHeadings ?c))))\<close>
    by blast
  then have \<open>fst (replaceHeadings 0 (scanHeadings ?c)) =
     [\<lparr>h_level = 2, h_text = ''A'', h_id = ''heading-0''\<rparr>,
      \<lparr>h_level = 3, h_text = ''C'', h_id = ''heading-2''\<rparr>]\<close>
    unfolding ps by (simp add: levelOf_def parseInt_def showNat.simps)
  ultimately show ?thesis by (rule conjI)
qed

subsection \<open>Nesting of the TOC lists\<close>

text \<open>The number of places where a text occurs in a string.\<close>

fun countOcc :: "string \<Rightarrow> string \<Rightarrow> nat" where
  "countOcc p [] = 0"
| "countOcc p (c # cs) = (if startsWith (c # cs) p then 1 else 0) + countOcc p cs"

text \<open>The \<open><ul>\<close> and \<open></ul>\<close> tags that the appended texts hold.\<close>

definition opens :: "tocToken list \<Rightarrow> nat" where
  "opens ts = length (filter (\<lambda>t. t = TocOpen \<or> t = UlOpen) ts)"

definition closes :: "tocToken list \<Rightarrow> nat" where
  "closes ts = length (filter (\<lambda>t. t = UlClose \<or> t = TocClose) ts)"

text \<open>
  Each entry with the number of lists that are open where it stands, counted from
  \<open>d\<close> open lists at the start.
\<close>

fun entryDepths :: "int \<Rightarrow> tocToken list \<Rightarrow> (heading \<times> int) list" where
  "entryDepths d [] = []"
| "entryDepths d (TocOpen # ts) = entryDepths (d + 1) ts"
| "entryDepths d (UlOpen # ts) = entryDepths (d + 1) ts"
| "entryDepths d (UlClose # ts) = entryDepths (d - 1) ts"
| "entryDepths d (TocClose # ts) = entryDepths (d - 1) ts"
| "entryDepths d (Li h # ts) = (h, d) # entryDepths d ts"

lemma opens_simps [simp]:
  "opens [] = 0" "opens (TocOpen # ts) = Suc (opens ts)" "opens (UlOpen # ts) = Suc (opens ts)"
  "opens (UlClose # ts) = opens ts" "opens (TocClose # ts) = opens ts" "opens (Li h # ts) = opens ts"
  "opens (ts @ us) = opens ts + opens us"
  "opens (replicate n UlOpen) = n" "opens (replicate n UlClose) = 0"
  by (simp_all add: opens_def)

lemma closes_simps [simp]:
  "closes [] = 0" "closes (TocOpen # ts) = closes ts" "closes (UlOpen # ts) = closes ts"
  "closes (UlClose # ts) = Suc (closes ts)" "closes (TocClose # ts) = Suc (closes ts)"
  "closes (Li h # ts) = closes ts"
  "closes (ts @ us) = closes ts + closes us"
  "closes (replicate n UlOpen) = 0" "closes (replicate n UlClose) = n"
  by (simp_all add: closes_def)

text \<open>
  From a cursor of at least 1, the loop and the closing loop behind it close as many lists
  as the loop opens, and \<open>currentLevel - 1\<close> more: the nested lists and the outer one.
\<close>

lemma tocItems_closes:
  "1 \<le> cur \<Longrightarrow> list_all (\<lambda>h. 1 \<le> h_level h) hs \<Longrightarrow>
     closes (tocItems cur hs) = opens (tocItems cur hs) + (cur - 1)"
  by (induction hs arbitrary: cur) auto

text \<open>
  The closing text of the dropdown closes the outer list once more: whatever the
  headings, the markup has one \<open></ul>\<close> more than it has \<open><ul>\<close>.
\<close>

lemma tocTokens_closes:
  "list_all (\<lambda>h. 1 \<le> h_level h) hs \<Longrightarrow> closes (tocTokens hs) = Suc (opens (tocTokens hs))"
  using tocItems_closes [of 2 hs] by (simp add: tocTokens_def)

lemma entryDepths_replicate:
  "entryDepths d (replicate n UlOpen @ ts) = entryDepths (d + int n) ts"
  "entryDepths d (replicate n UlClose @ ts) = entryDepths (d - int n) ts"
  by (induction n arbitrary: d) (auto simp: algebra_simps)

lemma entryDepths_tocItems:
  "entryDepths (int cur - 1) (tocItems cur hs @ ts) =
     map (\<lambda>h. (h, int (h_level h) - 1)) hs
     @ entryDepths (int (last (cur # map h_level hs)) - 1
                    - int (Suc (last (cur # map h_level hs)) - 2)) ts"
proof (induction hs arbitrary: cur)
  case Nil
  show ?case by (simp add: entryDepths_replicate)
next
  case (Cons h hs)
  have "entryDepths (int cur - 1)
      ((if h_level h > cur then replicate (h_level h - cur) UlOpen
        else if h_level h < cur then replicate (cur - h_level h) UlClose else []) @ us)
     = entryDepths (int (h_level h) - 1) us" for us
    by (auto simp: entryDepths_replicate algebra_simps)
  from this [of "Li h # tocItems (h_level h) hs @ ts"] Cons [of "h_level h"]
  show ?case by simp
qed

text \<open>An entry of level \<open>L\<close> stands where \<open>L - 1\<close> lists are open.\<close>

lemma tocTokens_entry_depths:
  "entryDepths 0 (tocTokens hs) = map (\<lambda>h. (h, int (h_level h) - 1)) hs"
  using entryDepths_tocItems [of 2 hs "[TocClose]"] by (simp add: tocTokens_def)

lemma toc_of_one_heading_opens:
  \<open>countOcc ''<ul>'' (fst (generateTOC ''<h2>A</h2>'')) = 1\<close>
  by code_simp

lemma toc_of_one_heading_closes:
  \<open>countOcc ''</ul>'' (fst (generateTOC ''<h2>A</h2>'')) = 2\<close>
  by code_simp

text \<open>
  C3. The TOC markup is not balanced. For the content \<open><h2>A</h2>\<close> the markup
  that \<open>generateTOC\<close> returns holds one \<open><ul>\<close> and two \<open></ul>\<close>: the loop
  \<open>for (i = 2; i <= currentLevel; i++)\<close> closes the outer list, and the closing text
  of the dropdown closes it again. (\<open>tocTokens_closes\<close> has the same for every list of
  headings; by \<open>tocTokens_entry_depths\<close> an entry of level \<open>L\<close> stands at depth
  \<open>L - 1\<close>.)
\<close>

theorem generateTOC_one_close_too_many:
  \<open>countOcc ''<ul>'' (fst (generateTOC ''<h2>A</h2>'')) = 1
   \<and> countOcc ''</ul>'' (fst (generateTOC ''<h2>A</h2>'')) = 2\<close>
  using toc_of_one_heading_opens toc_of_one_heading_closes by (rule conjI)

section \<open>Callout blocks\<close>

text \<open>
  The markers are tried in the order Example, Note, Grammar, and a quote with none of
  them stays a blockquote.
\<close>

lemma blockquote_example_first:
  \<open>str_includes quote ''**Example**:'' \<Longrightarrow>
     blockquote quote =
       ''<div class="example">'' @ stripP (removeFirst quote ''**Example**: '') @ ''</div>''\<close>
  by (simp add: blockquote_def)

lemma blockquote_plain:
  \<open>\<not> str_includes quote ''**Example**:'' \<Longrightarrow> \<not> str_includes quote ''**Note**:'' \<Longrightarrow>
   \<not> str_includes quote ''**Grammar**:'' \<Longrightarrow>
     blockquote quote = ''<blockquote>'' @ quote @ ''</blockquote>''\<close>
  by (simp add: blockquote_def)

text \<open>
  A quote whose rendered text still holds the marker and a blank behind it loses both,
  and its paragraph tags; the line break that ends the paragraph stays. The test is for
  the marker alone, the removal for the marker and a blank: without the blank the
  marker stays in the callout.
\<close>

lemma blockquote_literal_marker:
  \<open>blockquote ''<p>**Note**: remember this</p>\<newline>'' = ''<div class="note">remember this\<newline></div>''\<close>
  by (simp add: blockquote_def str_includes_def removeFirst_def)

lemma blockquote_marker_without_blank:
  \<open>blockquote ''<p>**Note**:remember this</p>\<newline>''
     = ''<div class="note">**Note**:remember this\<newline></div>''\<close>
  by (simp add: blockquote_def str_includes_def removeFirst_def)

text \<open>
  C1. The Markdown blockquote \<open>> **Note**: remember this\<close> does not become a callout.
  The quote that \<open>renderer.blockquote\<close> receives is rendered HTML (it strips the
  \<open><p>\<close> tags of it): the paragraph \<open><p>...</p>\<close> with its line break, in which the bold
  \<open>**Note**\<close> has gone through \<open>renderer.strong\<close>. No marker is left in it, and the
  result is an ordinary blockquote.
\<close>

theorem blockquote_bold_note_is_no_callout:
  \<open>blockquote (''<p>'' @ strong ''Note'' @ '': remember this</p>\<newline>'')
     = ''<blockquote><p><span class="japanese">Note</span>: remember this</p>\<newline></blockquote>''\<close>
  by (simp add: blockquote_def strong_def str_includes_def)

section \<open>More string primitives\<close>

text \<open>\<open>s.indexOf(p, from)\<close> for a \<open>from\<close> inside the string.\<close>

definition indexOfFrom :: "string \<Rightarrow> string \<Rightarrow> nat \<Rightarrow> nat option" where
  "indexOfFrom s p from = map_option (\<lambda>i. i + from) (indexOf (drop from s) p)"

definition endsWith :: "string \<Rightarrow> string \<Rightarrow> bool" where
  "endsWith s p = startsWith (rev s) (rev p)"

text \<open>\<open>s.split(c)\<close> for a separator of one character: never the empty list.\<close>

fun splitOn :: "char \<Rightarrow> string \<Rightarrow> string list" where
  "splitOn c [] = [[]]"
| "splitOn c (x # xs) =
     (if x = c then [] # splitOn c xs
      else (x # hd (splitOn c xs)) # tl (splitOn c xs))"

fun joinWith :: "string \<Rightarrow> string list \<Rightarrow> string" where
  "joinWith sep [] = []"
| "joinWith sep [x] = x"
| "joinWith sep (x # y # ys) = x @ sep @ joinWith sep (y # ys)"

text \<open>
  \<open>s.trim()\<close>: white space and line terminators at both ends go. \<open>whiteSpace\<close>
  lists them in UTF-8: blank, tab, LF, VT, FF, CR, U+00A0, U+1680, U+2000 to U+200A,
  U+2028, U+2029, U+202F, U+205F, U+3000 and U+FEFF.
\<close>

definition whiteSpace :: "string list" where
  "whiteSpace =
     [[CHR 0x20], [CHR 0x09], [CHR 0x0A], [CHR 0x0B], [CHR 0x0C], [CHR 0x0D],
      [CHR 0xC2, CHR 0xA0], [CHR 0xE1, CHR 0x9A, CHR 0x80], [CHR 0xE2, CHR 0x80, CHR 0x80],
      [CHR 0xE2, CHR 0x80, CHR 0x81], [CHR 0xE2, CHR 0x80, CHR 0x82],
      [CHR 0xE2, CHR 0x80, CHR 0x83], [CHR 0xE2, CHR 0x80, CHR 0x84],
      [CHR 0xE2, CHR 0x80, CHR 0x85], [CHR 0xE2, CHR 0x80, CHR 0x86],
      [CHR 0xE2, CHR 0x80, CHR 0x87], [CHR 0xE2, CHR 0x80, CHR 0x88],
      [CHR 0xE2, CHR 0x80, CHR 0x89], [CHR 0xE2, CHR 0x80, CHR 0x8A],
      [CHR 0xE2, CHR 0x80, CHR 0xA8], [CHR 0xE2, CHR 0x80, CHR 0xA9],
      [CHR 0xE2, CHR 0x80, CHR 0xAF], [CHR 0xE2, CHR 0x81, CHR 0x9F],
      [CHR 0xE3, CHR 0x80, CHR 0x80], [CHR 0xEF, CHR 0xBB, CHR 0xBF]]"

function stripLeading :: "string list \<Rightarrow> string \<Rightarrow> string" where
  "stripLeading ws s =
     (case find (\<lambda>w. w \<noteq> [] \<and> startsWith s w) ws of
        None \<Rightarrow> s
      | Some w \<Rightarrow> stripLeading ws (drop (length w) s))"
  by pat_completeness auto
termination
proof (relation "measure (\<lambda>(ws, s). length s)")
  fix ws :: "string list" and s w :: string
  assume "find (\<lambda>w. w \<noteq> [] \<and> startsWith s w) ws = Some w"
  then have "w \<noteq> []" "startsWith s w"
    by (auto simp: find_Some_iff)
  then have "s \<noteq> []" by (cases s; cases w) auto
  with \<open>w \<noteq> []\<close> show "((ws, drop (length w) s), (ws, s)) \<in> measure (\<lambda>(ws, s). length s)"
    by simp
qed simp

declare stripLeading.simps [simp del]

definition trim :: "string \<Rightarrow> string" where
  "trim s = rev (stripLeading (map rev whiteSpace) (rev (stripLeading whiteSpace s)))"

text \<open>
  \<open>s.toLowerCase()\<close> on the letters of ASCII. The results are only compared with
  \<open>.md\<close>, \<open>.html\<close> and \<open>template\<close>, and no letter outside ASCII becomes one of
  theirs in lower case. Only the message of an error that quotes an extension shows
  such a letter as it was written.
\<close>

definition lowerChar :: "char \<Rightarrow> char" where
  "lowerChar c =
     (case map_of (zip ''ABCDEFGHIJKLMNOPQRSTUVWXYZ'' ''abcdefghijklmnopqrstuvwxyz'') c of
        Some l \<Rightarrow> l
      | None \<Rightarrow> c)"

definition toLowerCase :: "string \<Rightarrow> string" where
  "toLowerCase s = map lowerChar s"

text \<open>
  A value in a boolean position: \<open>null\<close>, \<open>undefined\<close> and the empty string count
  as false. \<open>a || b\<close> on strings is \<open>orElse a b\<close>.
\<close>

fun truthy :: "string option \<Rightarrow> bool" where
  "truthy None = False"
| "truthy (Some s) = (s \<noteq> [])"

fun orElse :: "string option \<Rightarrow> string \<Rightarrow> string" where
  "orElse None d = d"
| "orElse (Some s) d = (if s = [] then d else s)"

section \<open>The path module (POSIX)\<close>

type_synonym path = string

text \<open>The last component of a path; slashes at the end do not count.\<close>

definition lastPart :: "path \<Rightarrow> string" where
  "lastPart p =
     rev (takeWhile (\<lambda>c. c \<noteq> CHR ''/'') (dropWhile (\<lambda>c. c = CHR ''/'') (rev p)))"

text \<open>
  \<open>path.extname\<close>: from the last dot of the last component; empty when there is no
  dot, when the only dot comes first, and for \<open>..\<close>.
\<close>

definition extname :: "path \<Rightarrow> string" where
  "extname p =
     (let part = lastPart p;
          e = rev (takeWhile (\<lambda>c. c \<noteq> CHR ''.'') (rev part))
      in if CHR ''.'' \<notin> set part then []
         else if Suc (length e) = length part then []
         else if part = ''..'' then []
         else CHR ''.'' # e)"

text \<open>\<open>path.basename(p, ext)\<close>: the last component, without \<open>ext\<close> at its end.\<close>

definition basename :: "path \<Rightarrow> string \<Rightarrow> string" where
  "basename p ext =
     (let part = lastPart p
      in if ext \<noteq> [] \<and> ext = p then []
         else if ext \<noteq> [] \<and> length ext < length part \<and> endsWith part ext
         then take (length part - length ext) part
         else part)"

text \<open>
  \<open>path.dirname\<close>: what stands before the slash in front of the last component;
  \<open>.\<close> for a relative path of one component, \<open>/\<close> for an absolute one.
\<close>

definition dirname :: "path \<Rightarrow> path" where
  "dirname p =
     (case p of
        [] \<Rightarrow> ''.''
      | c # cs \<Rightarrow>
          (let r = dropWhile (\<lambda>x. x \<noteq> CHR ''/'') (dropWhile (\<lambda>x. x = CHR ''/'') (rev cs))
           in if r = [] then (if c = CHR ''/'' then ''/'' else ''.'')
              else if c = CHR ''/'' \<and> length r = 1 then ''//''
              else c # rev (tl r)))"

text \<open>
  \<open>path.normalize\<close>: empty components and \<open>.\<close> go, \<open>..\<close> takes the component
  before it away (above the start of a relative path it stays).
\<close>

fun normSegs :: "bool \<Rightarrow> string list \<Rightarrow> string list \<Rightarrow> string list" where
  "normSegs up acc [] = rev acc"
| "normSegs up acc (s # ss) =
     (if s = [] \<or> s = ''.'' then normSegs up acc ss
      else if s = ''..'' then
        (if acc \<noteq> [] \<and> hd acc \<noteq> ''..'' then normSegs up (tl acc) ss
         else if up then normSegs up (''..'' # acc) ss
         else normSegs up acc ss)
      else normSegs up (s # acc) ss)"

definition normalize :: "path \<Rightarrow> path" where
  "normalize p =
     (if p = [] then ''.''
      else
        (let isAbsolute = (hd p = CHR ''/'');
             trailing = (last p = CHR ''/'');
             body = joinWith ''/'' (normSegs (\<not> isAbsolute) [] (splitOn CHR ''/'' p))
         in if body = [] then (if isAbsolute then ''/'' else if trailing then ''./'' else ''.'')
            else (if isAbsolute then ''/'' else []) @ body @ (if trailing then ''/'' else [])))"

text \<open>\<open>path.join(a, b)\<close>.\<close>

definition pathJoin :: "path \<Rightarrow> path \<Rightarrow> path" where
  "pathJoin a b =
     (let joined = joinWith ''/'' (filter (\<lambda>x. x \<noteq> []) [a, b])
      in if joined = [] then ''.'' else normalize joined)"

section \<open>Files, templates and the libraries\<close>

text \<open>
  The file system is a list of files under their paths, in the order a directory lists
  them; paths are compared as texts. A path that exists can be read, and a file can be
  written wherever its path points. \<open>readLog\<close> records the paths whose content has
  been read, the latest first; \<open>templateCache\<close> is the field of the converter.
\<close>

record fnode =
  fileData :: string
  mtime :: nat

record template =
  head :: string
  title :: string
  styles :: string
  externalStyles :: "string option list"
  bodyClass :: string
  containerClass :: string

record state =
  files :: "(path \<times> fnode) list"
  readLog :: "path list"
  clock :: nat
  templateCache :: "path \<rightharpoonup> template"

datatype error = ENOENT path | Error string

fun message :: "error \<Rightarrow> string" where
  \<open>message (ENOENT p) = ''ENOENT: no such file or directory, open '' @ [CHR 0x27] @ p @ [CHR 0x27]\<close>
| \<open>message (Error m) = m\<close>

definition pathExists :: "state \<Rightarrow> path \<Rightarrow> bool" where
  "pathExists st p = (map_of (files st) p \<noteq> None)"

definition readFile :: "path \<Rightarrow> state \<Rightarrow> (error + string) \<times> state" where
  "readFile p st =
     (case map_of (files st) p of
        None \<Rightarrow> (Inl (ENOENT p), st)
      | Some f \<Rightarrow> (Inr (fileData f), st\<lparr>readLog := p # readLog st\<rparr>))"

definition stat :: "path \<Rightarrow> state \<Rightarrow> error + nat" where
  "stat p st = (case map_of (files st) p of None \<Rightarrow> Inl (ENOENT p) | Some f \<Rightarrow> Inr (mtime f))"

fun putFile :: "path \<Rightarrow> fnode \<Rightarrow> (path \<times> fnode) list \<Rightarrow> (path \<times> fnode) list" where
  "putFile p f [] = [(p, f)]"
| "putFile p f ((q, g) # r) = (if q = p then (p, f) # r else (q, g) # putFile p f r)"

definition writeFile :: "path \<Rightarrow> string \<Rightarrow> state \<Rightarrow> state" where
  "writeFile p txt st =
     st\<lparr>files := putFile p \<lparr>fileData = txt, mtime = clock st\<rparr> (files st)\<rparr>"

text \<open>\<open>fs.readdir\<close>: the names of the files of a directory.\<close>

definition readdir :: "state \<Rightarrow> path \<Rightarrow> string list" where
  "readdir st dir = map (\<lambda>(p, f). lastPart p) (filter (\<lambda>(p, f). dirname p = dir) (files st))"

text \<open>
  The libraries are parameters. \<open>cheerio\<close> gives, for the text of an HTML document,
  the values of the queries that \<open>extractTemplate\<close> makes; \<open>marked\<close> renders a
  Markdown text through a renderer; \<open>appDir\<close> is \<open>__dirname\<close>.
\<close>

record dom =
  headHtml :: "string option"
  titleText :: string
  styleHtml :: "string option"
  stylesheetHrefs :: "string option list"
  bodyClassAttr :: "string option"
  containerClassAttr :: "string option"

record renderer =
  onTable :: "string \<Rightarrow> string \<Rightarrow> string"
  onBlockquote :: "string \<Rightarrow> string"
  onStrong :: "string \<Rightarrow> string"
  onEm :: "string \<Rightarrow> string"

definition converterRenderer :: renderer where
  "converterRenderer =
     \<lparr>onTable = table, onBlockquote = blockquote, onStrong = strong, onEm = em\<rparr>"

record env =
  cheerio :: "string \<Rightarrow> dom"
  marked :: "renderer \<Rightarrow> string \<Rightarrow> string"
  appDir :: path

section \<open>Converter.extractTemplate, getDefaultTemplate, findTemplate\<close>

definition fallbackHead :: string where
  \<open>fallbackHead =
     ''<meta charset="UTF-8">\<newline>'' @
     ''    <meta name="viewport" content="width=device-width, initial-scale=1.0">''\<close>

definition fallbackStyles :: string where
  \<open>fallbackStyles =
     ''\<newline>'' @
     ''        body {\<newline>'' @
     ''          font-family: 'Microsoft JhengHei', '' @ [CHR 0x27, CHR 0xE5, CHR 0xBE, CHR 0xAE, CHR 0xE8, CHR 0xBB, CHR 0x9F, CHR 0xE6, CHR 0xAD, CHR 0xA3, CHR 0xE9, CHR 0xBB, CHR 0x91, CHR 0xE9, CHR 0xAB, CHR 0x94, CHR 0x27] @ '', Arial, sans-serif;\<newline>'' @
     ''          line-height: 1.6;\<newline>'' @
     ''          margin: 20px;\<newline>'' @
     ''          background-color: #f8f9fa;\<newline>'' @
     ''        }\<newline>'' @
     ''        .container {\<newline>'' @
     ''          max-width: 1400px;\<newline>'' @
     ''          margin: 0 auto;\<newline>'' @
     ''          background: white;\<newline>'' @
     ''          padding: 30px;\<newline>'' @
     ''          border-radius: 10px;\<newline>'' @
     ''          box-shadow: 0 4px 6px rgba(0,0,0,0.1);\<newline>'' @
     ''        }\<newline>'' @
     ''        table {\<newline>'' @
     ''          width: 100%;\<newline>'' @
     ''          border-collapse: collapse;\<newline>'' @
     ''          margin: 20px 0;\<newline>'' @
     ''        }\<newline>'' @
     ''        th, td {\<newline>'' @
     ''          padding: 12px 8px;\<newline>'' @
     ''          border: 1px solid #ddd;\<newline>'' @
     ''          text-align: left;\<newline>'' @
     ''        }\<newline>'' @
     ''        th {\<newline>'' @
     ''          background: #34495e;\<newline>'' @
     ''          color: white;\<newline>'' @
     ''        }\<newline>'' @
     ''        .japanese { color: #e74c3c; font-weight: bold; }\<newline>'' @
     ''        .chinese { color: #27ae60; }\<newline>'' @
     ''        .example { \<newline>'' @
     ''          background-color: #fff3cd;\<newline>'' @
     ''          padding: 6px;\<newline>'' @
     ''          border-radius: 4px;\<newline>'' @
     ''          margin: 3px 0;\<newline>'' @
     ''          border-left: 4px solid #ffc107;\<newline>'' @
     ''        }\<newline>'' @
     ''        .note {\<newline>'' @
     ''          background-color: #d1ecf1;\<newline>'' @
     ''          padding: 10px;\<newline>'' @
     ''          border-radius: 4px;\<newline>'' @
     ''          margin: 10px 0;\<newline>'' @
     ''          border-left: 4px solid #17a2b8;\<newline>'' @
     ''        }\<newline>'' @
     ''        .grammar-point {\<newline>'' @
     ''          background-color: #e8f5e8;\<newline>'' @
     ''          padding: 8px;\<newline>'' @
     ''          border-radius: 4px;\<newline>'' @
     ''          margin: 5px 0;\<newline>'' @
     ''          border-left: 4px solid #28a745;\<newline>'' @
     ''        }\<newline>'' @
     ''        .toc-dropdown {\<newline>'' @
     ''          position: relative;\<newline>'' @
     ''          display: inline-block;\<newline>'' @
     ''          margin: 20px 0 30px 0;\<newline>'' @
     ''        }\<newline>'' @
     ''        .toc-toggle {\<newline>'' @
     ''          background: linear-gradient(135deg, #4a90e2, #357abd);\<newline>'' @
     ''          color: white;\<newline>'' @
     ''          border: none;\<newline>'' @
     ''          padding: 12px 20px;\<newline>'' @
     ''          font-size: 16px;\<newline>'' @
     ''          border-radius: 8px;\<newline>'' @
     ''          cursor: pointer;\<newline>'' @
     ''          display: flex;\<newline>'' @
     ''          align-items: center;\<newline>'' @
     ''          gap: 10px;\<newline>'' @
     ''          box-shadow: 0 2px 10px rgba(74, 144, 226, 0.3);\<newline>'' @
     ''          transition: all 0.3s ease;\<newline>'' @
     ''          font-family: inherit;\<newline>'' @
     ''        }\<newline>'' @
     ''        .toc-toggle:hover {\<newline>'' @
     ''          background: linear-gradient(135deg, #357abd, #2968a3);\<newline>'' @
     ''          box-shadow: 0 4px 15px rgba(74, 144, 226, 0.4);\<newline>'' @
     ''          transform: translateY(-1px);\<newline>'' @
     ''        }\<newline>'' @
     ''        .toc-toggle:active {\<newline>'' @
     ''          transform: translateY(0);\<newline>'' @
     ''          box-shadow: 0 2px 8px rgba(74, 144, 226, 0.3);\<newline>'' @
     ''        }\<newline>'' @
     ''        .toc-icon {\<newline>'' @
     ''          font-size: 18px;\<newline>'' @
     ''          font-weight: bold;\<newline>'' @
     ''        }\<newline>'' @
     ''        .toc-arrow {\<newline>'' @
     ''          margin-left: auto;\<newline>'' @
     ''          transition: transform 0.3s ease;\<newline>'' @
     ''        }\<newline>'' @
     ''        .toc-content {\<newline>'' @
     ''          display: none;\<newline>'' @
     ''          position: absolute;\<newline>'' @
     ''          background-color: white;\<newline>'' @
     ''          min-width: 350px;\<newline>'' @
     ''          max-width: 500px;\<newline>'' @
     ''          max-height: 400px;\<newline>'' @
     ''          overflow-y: auto;\<newline>'' @
     ''          box-shadow: 0 8px 25px rgba(0,0,0,0.15);\<newline>'' @
     ''          z-index: 1000;\<newline>'' @
     ''          border-radius: 8px;\<newline>'' @
     ''          border: 1px solid #e1e5e9;\<newline>'' @
     ''          margin-top: 5px;\<newline>'' @
     ''        }\<newline>'' @
     ''        .toc-content ul {\<newline>'' @
     ''          list-style-type: none;\<newline>'' @
     ''          padding: 10px 0;\<newline>'' @
     ''          margin: 0;\<newline>'' @
     ''        }\<newline>'' @
     ''        .toc-content ul ul {\<newline>'' @
     ''          padding-left: 20px;\<newline>'' @
     ''        }\<newline>'' @
     ''        .toc-content li {\<newline>'' @
     ''          margin: 0;\<newline>'' @
     ''        }\<newline>'' @
     ''        .toc-content a {\<newline>'' @
     ''          text-decoration: none;\<newline>'' @
     ''          color: #495057;\<newline>'' @
     ''          font-size: 14px;\<newline>'' @
     ''          line-height: 1.4;\<newline>'' @
     ''          display: block;\<newline>'' @
     ''          padding: 8px 20px;\<newline>'' @
     ''          transition: all 0.2s ease;\<newline>'' @
     ''          border-left: 3px solid transparent;\<newline>'' @
     ''        }\<newline>'' @
     ''        .toc-content a:hover {\<newline>'' @
     ''          background-color: #f8f9fa;\<newline>'' @
     ''          color: #007bff;\<newline>'' @
     ''          border-left-color: #007bff;\<newline>'' @
     ''        }\<newline>'' @
     ''        .toc-content ul ul a {\<newline>'' @
     ''          padding-left: 40px;\<newline>'' @
     ''          font-size: 13px;\<newline>'' @
     ''          color: #6c757d;\<newline>'' @
     ''        }\<newline>'' @
     ''        @media (max-width: 768px) {\<newline>'' @
     ''          .toc-content {\<newline>'' @
     ''            min-width: 300px;\<newline>'' @
     ''            max-width: calc(100vw - 40px);\<newline>'' @
     ''          }\<newline>'' @
     ''        }\<newline>'' @
     ''        .back-to-top {\<newline>'' @
     ''          text-align: right;\<newline>'' @
     ''          margin: 10px 0 20px 0;\<newline>'' @
     ''          font-size: 12px;\<newline>'' @
     ''        }\<newline>'' @
     ''        .back-to-top a {\<newline>'' @
     ''          color: #6c757d;\<newline>'' @
     ''          text-decoration: none;\<newline>'' @
     ''          padding: 5px 10px;\<newline>'' @
     ''          border: 1px solid #dee2e6;\<newline>'' @
     ''          border-radius: 4px;\<newline>'' @
     ''          background-color: #f8f9fa;\<newline>'' @
     ''          transition: all 0.3s ease;\<newline>'' @
     ''        }\<newline>'' @
     ''        .back-to-top a:hover {\<newline>'' @
     ''          color: #495057;\<newline>'' @
     ''          background-color: #e9ecef;\<newline>'' @
     ''          border-color: #adb5bd;\<newline>'' @
     ''          text-decoration: none;\<newline>'' @
     ''        }\<newline>'' @
     ''      ''\<close>

definition fallbackTemplate :: template where
  "fallbackTemplate =
     \<lparr>head = fallbackHead, title = ''Generated Document'', styles = fallbackStyles,
      externalStyles = [], bodyClass = [], containerClass = ''container''\<rparr>"

text \<open>The template object that \<open>extractTemplate\<close> builds from the parsed document.\<close>

definition templateOf :: "dom \<Rightarrow> template" where
  "templateOf d =
     \<lparr>head = orElse (headHtml d) [],
      title = orElse (Some (titleText d)) ''Generated Document'',
      styles = orElse (styleHtml d) [],
      externalStyles = stylesheetHrefs d,
      bodyClass = orElse (bodyClassAttr d) [],
      containerClass = orElse (containerClassAttr d) ''container''\<rparr>"

text \<open>
  \<open>extractTemplate\<close> reads the file, builds the template and stores it in the cache;
  when the file cannot be read it falls back to \<open>getDefaultTemplate\<close>, which in turn
  extracts \<open>template.html\<close> of the application's directory when that exists.
\<close>

lemma readFile_Inl: "readFile p st = (Inl err, st1) \<Longrightarrow> \<not> pathExists st p \<and> st1 = st"
  by (auto simp: readFile_def pathExists_def split: option.splits)

function extractTemplate :: "env \<Rightarrow> path \<Rightarrow> state \<Rightarrow> template \<times> state"
  and getDefaultTemplate :: "env \<Rightarrow> state \<Rightarrow> template \<times> state" where
  "extractTemplate e htmlPath st =
     (case readFile htmlPath st of
        (Inr html, st1) \<Rightarrow>
          (let t = templateOf (cheerio e html)
           in (t, st1\<lparr>templateCache := (templateCache st1)(htmlPath \<mapsto> t)\<rparr>))
      | (Inl err, st1) \<Rightarrow> getDefaultTemplate e st1)"
| "getDefaultTemplate e st =
     (let srcTemplatePath = pathJoin (appDir e) ''template.html''
      in if pathExists st srcTemplatePath then extractTemplate e srcTemplatePath st
         else (fallbackTemplate, st))"
  by pat_completeness auto

termination
proof (relation "measure (\<lambda>x. case x of
           Inl (e, p, st) \<Rightarrow> (if pathExists st p then 0 else 2)
         | Inr (e, st) \<Rightarrow> 1)")
  show "wf (measure (\<lambda>x. case x of
           Inl (e, p, st) \<Rightarrow> (if pathExists st p then (0::nat) else 2)
         | Inr (e, st) \<Rightarrow> 1))"
    by simp
qed (auto dest: readFile_Inl [OF sym])

declare extractTemplate.simps [simp del] getDefaultTemplate.simps [simp del]

definition findTemplate :: "env \<Rightarrow> path \<Rightarrow> state \<Rightarrow> template option \<times> state" where
  "findTemplate e mdPath st =
     (let srcTemplatePath = pathJoin (appDir e) ''template.html''
      in if pathExists st srcTemplatePath
         then (let (t, st1) = extractTemplate e srcTemplatePath st in (Some t, st1))
         else
           (let dir = dirname mdPath;
                htmlFiles = filter (\<lambda>f. endsWith f ''.html'') (readdir st dir)
            in if htmlFiles \<noteq> [] then
                 (case find (\<lambda>f. str_includes (toLowerCase f) ''template'') htmlFiles of
                    Some templateFile \<Rightarrow>
                      (let (t, st1) = extractTemplate e (pathJoin dir templateFile) st
                       in (Some t, st1))
                  | None \<Rightarrow>
                      (let (t, st1) = extractTemplate e (pathJoin dir (hd htmlFiles)) st
                       in (Some t, st1)))
               else (None, st)))"

section \<open>Converter.mdToHtml: front matter\<close>

text \<open>
  One line of the metadata text: \<open>const [key, ...valueParts] = line.split(':')\<close>, and
  the assignment when the key is not empty and there is a colon. The metadata is a plain
  object: the assignment of a text to its key \<open>__proto__\<close> adds no property.
\<close>

definition addMetadataLine :: "(string \<rightharpoonup> string) \<Rightarrow> string \<Rightarrow> (string \<rightharpoonup> string)" where
  "addMetadataLine metadata line =
     (let parts = splitOn CHR '':'' line;
          key = hd parts;
          valueParts = tl parts
      in if key \<noteq> [] \<and> valueParts \<noteq> [] \<and> trim key \<noteq> ''__proto__''
         then metadata(trim key \<mapsto> trim (joinWith '':'' valueParts))
         else metadata)"

text \<open>The metadata and the Markdown body of a source text.\<close>

definition extractMetadata :: "string \<Rightarrow> (string \<rightharpoonup> string) \<times> string" where
  "extractMetadata markdownContent =
     (if startsWith markdownContent ''---'' then
        (case indexOfFrom markdownContent ''---'' 3 of
           None \<Rightarrow> (Map.empty, markdownContent)
         | Some metadataEnd \<Rightarrow>
             if metadataEnd > 0 then
               (let metadataText = take (metadataEnd - 3) (drop 3 markdownContent)
                in (foldl addMetadataLine Map.empty (splitOn CHR 0x0A metadataText),
                    trim (drop (metadataEnd + 3) markdownContent)))
             else (Map.empty, markdownContent))
      else (Map.empty, markdownContent))"

section \<open>Converter.applyTemplate\<close>

text \<open>
  \<open>/<h1[^>]*>(.*?)<\/h1>/\<close>: the first match in a text, as what stands before it, its
  group, the whole match and what follows.
\<close>

fun lazyUntil :: "string \<Rightarrow> string \<Rightarrow> (string \<times> string) option" where
  "lazyUntil cl [] = None"
| "lazyUntil cl (c # cs) =
     (if startsWith (c # cs) cl then Some ([], drop (length cl) (c # cs))
      else if lineTerminatorAt (c # cs) then None
      else map_option (\<lambda>(t, r). (c # t, r)) (lazyUntil cl cs))"

definition matchH1At :: "string \<Rightarrow> (string \<times> string \<times> string) option" where
  "matchH1At s =
     (if startsWith s ''<h1'' \<and> CHR ''>'' \<in> set (drop 3 s) then
        (case lazyUntil ''</h1>'' (tl (dropWhile (\<lambda>x. x \<noteq> CHR ''>'') (drop 3 s))) of
           None \<Rightarrow> None
         | Some (t, rest) \<Rightarrow>
             Some (t, ''<h1'' @ takeWhile (\<lambda>x. x \<noteq> CHR ''>'') (drop 3 s) @ ''>'' @ t @ ''</h1>'',
                   rest))
      else None)"

fun findH1 :: "string \<Rightarrow> (string \<times> string \<times> string \<times> string) option" where
  "findH1 [] = None"
| "findH1 (c # cs) =
     (case matchH1At (c # cs) of
        Some (t, w, r) \<Rightarrow> Some ([], t, w, r)
      | None \<Rightarrow> map_option (\<lambda>(b, t, w, r). (c # b, t, w, r)) (findH1 cs))"

text \<open>
  The replacement text of \<open>String.prototype.replace\<close> for an expression with one
  group: \<open>$$\<close>, \<open>$&\<close>, \<open>$`\<close>, \<open>$'\<close>, \<open>$1\<close> and \<open>$01\<close> are
  substituted, any other \<open>$\<close> stands for itself.
\<close>

fun expandReplacement :: "string \<Rightarrow> string \<Rightarrow> string \<Rightarrow> string \<Rightarrow> string \<Rightarrow> string" where
  "expandReplacement [] m b a g = []"
| "expandReplacement [c] m b a g = [c]"
| "expandReplacement (c # d # r) m b a g =
     (if c \<noteq> CHR ''$'' then c # expandReplacement (d # r) m b a g
      else if d = CHR ''$'' then CHR ''$'' # expandReplacement r m b a g
      else if d = CHR ''&'' then m @ expandReplacement r m b a g
      else if d = CHR ''`'' then b @ expandReplacement r m b a g
      else if d = CHR 0x27 then a @ expandReplacement r m b a g
      else if d = CHR ''1'' then g @ expandReplacement r m b a g
      else if d = CHR ''0'' \<and> startsWith r ''1'' then g @ expandReplacement (tl r) m b a g
      else c # expandReplacement (d # r) m b a g)"

text \<open>\<open>processedContent.replace(/(<h1[^>]*>.*?<\/h1>)/, `$1\n${toc}`)\<close>.\<close>

definition insertToc :: "string \<Rightarrow> string \<Rightarrow> string" where
  "insertToc toc processedContent =
     (case findH1 processedContent of
        None \<Rightarrow> processedContent
      | Some (pre, t, w, post) \<Rightarrow>
          pre @ expandReplacement (''$1'' @ [CHR 0x0A] @ toc) w pre post w @ post)"

text \<open>The title of the document.\<close>

definition resolveTitle :: "string \<Rightarrow> template \<Rightarrow> (string \<rightharpoonup> string) \<Rightarrow> string" where
  "resolveTitle processedContent tpl metadata =
     (if truthy (metadata ''title'') then the (metadata ''title'')
      else
        (case findH1 processedContent of
           Some (pre, t, w, post) \<Rightarrow> stripTags t
         | None \<Rightarrow> orElse (Some (title tpl)) ''Generated Document''))"

definition tocStyles :: string where
  \<open>tocStyles =
     ''\<newline>'' @
     ''        .toc-dropdown {\<newline>'' @
     ''            position: relative;\<newline>'' @
     ''            display: inline-block;\<newline>'' @
     ''            margin: 20px 0 30px 0;\<newline>'' @
     ''        }\<newline>'' @
     ''        .toc-toggle {\<newline>'' @
     ''            background: linear-gradient(135deg, #4a90e2, #357abd);\<newline>'' @
     ''            color: white;\<newline>'' @
     ''            border: none;\<newline>'' @
     ''            padding: 12px 20px;\<newline>'' @
     ''            font-size: 16px;\<newline>'' @
     ''            border-radius: 8px;\<newline>'' @
     ''            cursor: pointer;\<newline>'' @
     ''            display: flex;\<newline>'' @
     ''            align-items: center;\<newline>'' @
     ''            gap: 10px;\<newline>'' @
     ''            box-shadow: 0 2px 10px rgba(74, 144, 226, 0.3);\<newline>'' @
     ''            transition: all 0.3s ease;\<newline>'' @
     ''            font-family: inherit;\<newline>'' @
     ''        }\<newline>'' @
     ''        .toc-toggle:hover {\<newline>'' @
     ''            background: linear-gradient(135deg, #357abd, #2968a3);\<newline>'' @
     ''            box-shadow: 0 4px 15px rgba(74, 144, 226, 0.4);\<newline>'' @
     ''            transform: translateY(-1px);\<newline>'' @
     ''        }\<newline>'' @
     ''        .toc-toggle:active {\<newline>'' @
     ''            transform: translateY(0);\<newline>'' @
     ''            box-shadow: 0 2px 8px rgba(74, 144, 226, 0.3);\<newline>'' @
     ''        }\<newline>'' @
     ''        .toc-icon {\<newline>'' @
     ''            font-size: 18px;\<newline>'' @
     ''            font-weight: bold;\<newline>'' @
     ''        }\<newline>'' @
     ''        .toc-arrow {\<newline>'' @
     ''            margin-left: auto;\<newline>'' @
     ''            transition: transform 0.3s ease;\<newline>'' @
     ''        }\<newline>'' @
     ''        .toc-content {\<newline>'' @
     ''            display: none;\<newline>'' @
     ''            position: absolute;\<newline>'' @
     ''            background-color: white;\<newline>'' @
     ''            min-width: 350px;\<newline>'' @
     ''            max-width: 500px;\<newline>'' @
     ''            max-height: 400px;\<newline>'' @
     ''            overflow-y: auto;\<newline>'' @
     ''            box-shadow: 0 8px 25px rgba(0,0,0,0.15);\<newline>'' @
     ''            z-index: 1000;\<newline>'' @
     ''            border-radius: 8px;\<newline>'' @
     ''            border: 1px solid #e1e5e9;\<newline>'' @
     ''            margin-top: 5px;\<newline>'' @
     ''        }\<newline>'' @
     ''        .toc-content ul {\<newline>'' @
     ''            list-style-type: none;\<newline>'' @
     ''            padding: 10px 0;\<newline>'' @
     ''            margin: 0;\<newline>'' @
     ''        }\<newline>'' @
     ''        .toc-content ul ul {\<newline>'' @
     ''            padding-left: 20px;\<newline>'' @
     ''        }\<newline>'' @
     ''        .toc-content li {\<newline>'' @
     ''            margin: 0;\<newline>'' @
     ''        }\<newline>'' @
     ''        .toc-content a {\<newline>'' @
     ''            text-decoration: none;\<newline>'' @
     ''            color: #495057;\<newline>'' @
     ''            font-size: 14px;\<newline>'' @
     ''            line-height: 1.4;\<newline>'' @
     ''            display: block;\<newline>'' @
     ''            padding: 8px 20px;\<newline>'' @
     ''            transition: all 0.2s ease;\<newline>'' @
     ''            border-left: 3px solid transparent;\<newline>'' @
     ''        }\<newline>'' @
     ''        .toc-content a:hover {\<newline>'' @
     ''            background-color: #f8f9fa;\<newline>'' @
     ''            color: #007bff;\<newline>'' @
     ''            border-left-color: #007bff;\<newline>'' @
     ''        }\<newline>'' @
     ''        .toc-content ul ul a {\<newline>'' @
     ''            padding-left: 40px;\<newline>'' @
     ''            font-size: 13px;\<newline>'' @
     ''            color: #6c757d;\<newline>'' @
     ''        }\<newline>'' @
     ''        @media (max-width: 768px) {\<newline>'' @
     ''            .toc-content {\<newline>'' @
     ''                min-width: 300px;\<newline>'' @
     ''                max-width: calc(100vw - 40px);\<newline>'' @
     ''            }\<newline>'' @
     ''        }\<newline>'' @
     ''        .back-to-top {\<newline>'' @
     ''            text-align: right;\<newline>'' @
     ''            margin: 10px 0 20px 0;\<newline>'' @
     ''            font-size: 12px;\<newline>'' @
     ''        }\<newline>'' @
     ''        .back-to-top a {\<newline>'' @
     ''            color: #6c757d;\<newline>'' @
     ''            text-decoration: none;\<newline>'' @
     ''            padding: 5px 10px;\<newline>'' @
     ''            border: 1px solid #dee2e6;\<newline>'' @
     ''            border-radius: 4px;\<newline>'' @
     ''            background-color: #f8f9fa;\<newline>'' @
     ''            transition: all 0.3s ease;\<newline>'' @
     ''        }\<newline>'' @
     ''        .back-to-top a:hover {\<newline>'' @
     ''            color: #495057;\<newline>'' @
     ''            background-color: #e9ecef;\<newline>'' @
     ''            border-color: #adb5bd;\<newline>'' @
     ''            text-decoration: none;\<newline>'' @
     ''        }''\<close>

fun showHref :: "string option \<Rightarrow> string" where
  "showHref None = ''undefined''"
| "showHref (Some h) = h"

definition applyTemplate :: "string \<Rightarrow> template \<Rightarrow> (string \<rightharpoonup> string) \<Rightarrow> string" where
  \<open>applyTemplate content tpl metadata =
     (let (toc, processedContent) = generateTOC content;
          docTitle = resolveTitle processedContent tpl metadata;
          externalLinks = joinWith ''\<newline>    ''
            (map (\<lambda>href. ''<link rel="stylesheet" href="'' @ showHref href @ ''">'')
               (externalStyles tpl));
          allStyles = styles tpl @ tocStyles;
          styleTag = (if allStyles \<noteq> [] then ''<style>\<newline>'' @ allStyles @ ''\<newline>    </style>''
                      else []);
          contentWithToc = (if toc \<noteq> [] then insertToc toc processedContent
                            else processedContent)
      in ''<!DOCTYPE html>\<newline>'' @
         ''<html lang="'' @ orElse (metadata ''lang'') ''zh-TW'' @ ''">\<newline>'' @
         ''<head>\<newline>'' @
         ''    '' @ head tpl @ ''\<newline>'' @
         ''    <title>'' @ docTitle @ ''</title>\<newline>'' @
         ''    '' @ externalLinks @ ''\<newline>'' @
         ''    '' @ styleTag @ ''\<newline>'' @
         ''</head>\<newline>'' @
         ''<body'' @ (if bodyClass tpl \<noteq> [] then '' class="'' @ bodyClass tpl @ ''"'' else [])
           @ ''>\<newline>'' @
         ''    <div class="'' @ containerClass tpl @ ''">\<newline>'' @
         ''        '' @ contentWithToc @ ''\<newline>'' @
         ''    </div>\<newline>'' @
         ''</body>\<newline>'' @
         ''</html>'')\<close>

section \<open>Converter.mdToHtml and Converter.sync\<close>

definition mdToHtml ::
  "env \<Rightarrow> path \<Rightarrow> string option \<Rightarrow> string option \<Rightarrow> state \<Rightarrow> (error + path) \<times> state" where
  "mdToHtml e mdPath templatePath outputPath st =
     (let out = (if truthy outputPath then the outputPath
                 else pathJoin (dirname mdPath) (basename mdPath ''.md'' @ ''.html''))
      in case readFile mdPath st of
           (Inl err, st1) \<Rightarrow>
             (Inl (Error (''MD to HTML conversion failed: '' @ message err)), st1)
         | (Inr markdownContent, st1) \<Rightarrow>
             (let (metadata, body) = extractMetadata markdownContent;
                  (tpl, st2) =
                    (if truthy templatePath \<and> pathExists st1 (the templatePath)
                     then extractTemplate e (the templatePath) st1
                     else if truthy templatePath then
                       (let dir = dirname mdPath;
                            possibleTemplate = pathJoin dir (the templatePath @ ''.html'')
                        in if pathExists st1 possibleTemplate
                           then extractTemplate e possibleTemplate st1
                           else getDefaultTemplate e st1)
                     else
                       (case findTemplate e mdPath st1 of
                          (Some t, st') \<Rightarrow> (t, st')
                        | (None, st') \<Rightarrow> getDefaultTemplate e st'));
                  htmlContent = marked e converterRenderer body;
                  finalHtml = applyTemplate htmlContent tpl metadata
              in (Inr out, writeFile out finalHtml st2)))"

definition sync ::
  "env \<Rightarrow> path \<Rightarrow> string option \<Rightarrow> string option \<Rightarrow> state \<Rightarrow> (error + path) \<times> state" where
  "sync e sourcePath targetPath templatePath st =
     (let sourceExt = toLowerCase (extname sourcePath)
      in if sourceExt = ''.md'' then mdToHtml e sourcePath templatePath targetPath st
         else (Inl (Error (''Only Markdown to HTML conversion is supported. Input: ''
                            @ sourceExt)), st))"

section \<open>FileWatcher\<close>

text \<open>
  A chokidar watcher is known by the number it got when it was created. \<open>watchers\<close> is
  the map of the class, \<open>running\<close> the watchers that were created and not closed, each
  with the handler of its change events.
\<close>

record options =
  convertExisting :: bool
  force :: bool

datatype handler =
    FileChange path "string option" "string option"
  | DirChange options

record fileWatcher =
  watchers :: "path \<rightharpoonup> nat"
  syncing :: bool
  running :: "(nat \<times> handler) list"
  nextWatcher :: nat

definition newFileWatcher :: fileWatcher where
  "newFileWatcher = \<lparr>watchers = Map.empty, syncing = False, running = [], nextWatcher = 0\<rparr>"

definition watchFile ::
  "path \<Rightarrow> string option \<Rightarrow> string \<Rightarrow> string option \<Rightarrow> fileWatcher \<Rightarrow> fileWatcher" where
  "watchFile sourcePath targetPath sourceType templatePath fw =
     (if watchers fw sourcePath \<noteq> None then fw
      else
        (let watcher = nextWatcher fw
         in fw\<lparr>watchers := (watchers fw)(sourcePath \<mapsto> watcher),
                running := (watcher, FileChange sourcePath targetPath templatePath) # running fw,
                nextWatcher := Suc watcher\<rparr>))"

definition watchDirectory :: "path \<Rightarrow> options \<Rightarrow> fileWatcher \<Rightarrow> nat \<times> fileWatcher" where
  "watchDirectory dirPath opts fw =
     (let watcher = nextWatcher fw
      in (watcher,
          fw\<lparr>watchers := (watchers fw)(dirPath \<mapsto> watcher),
              running := (watcher, DirChange opts) # running fw,
              nextWatcher := Suc watcher\<rparr>))"

definition stop :: "path \<Rightarrow> fileWatcher \<Rightarrow> fileWatcher" where
  "stop filePath fw =
     (case watchers fw filePath of
        None \<Rightarrow> fw
      | Some watcher \<Rightarrow>
          fw\<lparr>running := filter (\<lambda>(w, h). w \<noteq> watcher) (running fw),
              watchers := (watchers fw)(filePath := None)\<rparr>)"

text \<open>
  \<open>handleFileChange\<close>. The three ways it returns without an error are told apart:
  the file is none of ours, the target is not older than the source, the conversion
  was made.
\<close>

datatype handled = NotOurs | TargetCurrent | Synced path

definition targetPathOf :: "path \<Rightarrow> path" where
  "targetPathOf filePath =
     (let ext = toLowerCase (extname filePath);
          dir = dirname filePath;
          name = basename filePath ext
      in if ext = ''.html'' then pathJoin dir (name @ ''.md'')
         else pathJoin dir (name @ ''.html''))"

definition handleFileChange ::
  "env \<Rightarrow> path \<Rightarrow> options \<Rightarrow> state \<Rightarrow> (error + handled) \<times> state" where
  "handleFileChange e filePath opts st =
     (let ext = toLowerCase (extname filePath);
          targetPath = targetPathOf filePath;
          convert = (case sync e filePath (Some targetPath) None st of
                       (Inl err, st1) \<Rightarrow> (Inl err, st1)
                     | (Inr out, st1) \<Rightarrow> (Inr (Synced out), st1))
      in if ext \<noteq> ''.html'' \<and> ext \<noteq> ''.md'' then (Inr NotOurs, st)
         else
           (case stat filePath st of
              Inl err \<Rightarrow> (Inl err, st)
            | Inr sourceMtime \<Rightarrow>
                if pathExists st targetPath \<and> \<not> force opts then
                  (case stat targetPath st of
                     Inl err \<Rightarrow> (Inl err, st)
                   | Inr targetMtime \<Rightarrow>
                       if targetMtime \<ge> sourceMtime then (Inr TargetCurrent, st)
                       else convert)
                else convert))"

text \<open>
  The change handlers: an event that comes while \<open>syncing\<close> is set is dropped; otherwise
  the conversion runs, its error is logged and not passed on, and the flag is cleared.
\<close>

definition onFileChange ::
  "env \<Rightarrow> path \<Rightarrow> string option \<Rightarrow> string option \<Rightarrow> fileWatcher \<times> state \<Rightarrow> fileWatcher \<times> state" where
  "onFileChange e sourcePath targetPath templatePath ws =
     (let (fw, st) = ws
      in if syncing fw then (fw, st)
         else (fw\<lparr>syncing := False\<rparr>, snd (mdToHtml e sourcePath templatePath targetPath st)))"

definition onDirChange ::
  "env \<Rightarrow> options \<Rightarrow> path \<Rightarrow> fileWatcher \<times> state \<Rightarrow> fileWatcher \<times> state" where
  "onDirChange e opts filePath ws =
     (let (fw, st) = ws
      in if syncing fw then (fw, st)
         else (fw\<lparr>syncing := False\<rparr>, snd (handleFileChange e filePath opts st)))"

section \<open>An environment for the examples\<close>

text \<open>
  The libraries at the inputs of the examples: \<open>cheerio\<close> on a document with nothing
  to extract, \<open>marked\<close> on a Markdown text that is one paragraph of plain words.
\<close>

definition sampleEnv :: env where
  "sampleEnv =
     \<lparr>cheerio = (\<lambda>html. \<lparr>headHtml = Some [], titleText = [], styleHtml = None,
                          stylesheetHrefs = [], bodyClassAttr = None,
                          containerClassAttr = None\<rparr>),
      marked = (\<lambda>r md. ''<p>'' @ md @ ''</p>\<newline>''),
      appDir = ''/app/src''\<rparr>"

definition sampleState :: state where
  "sampleState =
     \<lparr>files = [(''/docs/a.MD'', \<lparr>fileData = ''hello'', mtime = 5\<rparr>),
               (''/docs/b.md'', \<lparr>fileData = ''world'', mtime = 7\<rparr>),
               (''/docs/b.html'', \<lparr>fileData = ''<p>old</p>'', mtime = 9\<rparr>),
               (''/docs/c.md'', \<lparr>fileData = ''again'', mtime = 12\<rparr>),
               (''/docs/c.html'', \<lparr>fileData = ''<p>once</p>'', mtime = 3\<rparr>)],
      readLog = [], clock = 20, templateCache = Map.empty\<rparr>"

section \<open>Watcher registrations\<close>

text \<open>\<open>watchFile\<close> on a path that is registered changes nothing.\<close>

lemma watchFile_registered_noop:
  "watchers fw p \<noteq> None \<Longrightarrow> watchFile p t ty tp fw = fw"
  by (simp add: watchFile_def)

lemma watchFile_twice:
  "watchFile p t' ty' tp' (watchFile p t ty tp fw) = watchFile p t ty tp fw"
  by (simp add: watchFile_def Let_def)

text \<open>
  C9. \<open>watchDirectory\<close> has no such test. Called twice for \<open>/docs\<close>, it creates a
  second watcher and stores it under the path in place of the first, which goes on
  running with no entry in the map.
\<close>

theorem watchDirectory_twice_replaces_watcher:
  \<open>(let opts = \<lparr>convertExisting = False, force = False\<rparr>;
        (w1, fw1) = watchDirectory ''/docs'' opts newFileWatcher;
        (w2, fw2) = watchDirectory ''/docs'' opts fw1
    in watchers fw1 ''/docs'' = Some 0 \<and> watchers fw2 ''/docs'' = Some 1
       \<and> map fst (running fw2) = [1, 0])\<close>
  by (simp add: watchDirectory_def newFileWatcher_def Let_def)

section \<open>The template cache\<close>

text \<open>
  An extraction of a path that exists reads the file and stores the template, whatever
  the cache holds: \<open>templateCache\<close> is written and never looked up.
\<close>

lemma extractTemplate_reads:
  "pathExists st p \<Longrightarrow>
     extractTemplate e p st =
       (templateOf (cheerio e (fileData (the (map_of (files st) p)))),
        st\<lparr>readLog := p # readLog st,
            templateCache := (templateCache st)(p \<mapsto>
              templateOf (cheerio e (fileData (the (map_of (files st) p)))))\<rparr>)"
  by (auto simp: extractTemplate.simps readFile_def pathExists_def Let_def)

text \<open>
  C2. A second extraction of the same path reads the file again. After a first
  extraction of \<open>/docs/layout.html\<close> the cache holds its template; the file is then
  rewritten, and the second extraction returns the template of the new text, with two
  reads of the path in the log.
\<close>

theorem extractTemplate_reads_the_file_again:
  \<open>(let p = ''/docs/layout.html'';
        st0 = \<lparr>files = [(p, \<lparr>fileData = ''<title>A</title>'', mtime = 1\<rparr>)],
               readLog = [], clock = 2, templateCache = Map.empty\<rparr>;
        (t1, st1) = extractTemplate e p st0;
        (t2, st2) = extractTemplate e p (writeFile p ''<title>B</title>'' st1)
    in templateCache st1 p = Some t1
       \<and> t1 = templateOf (cheerio e ''<title>A</title>'')
       \<and> t2 = templateOf (cheerio e ''<title>B</title>'')
       \<and> readLog st2 = [p, p])\<close>
  by (simp add: extractTemplate.simps readFile_def writeFile_def Let_def)

section \<open>The dispatch of sync\<close>

text \<open>The error of \<open>sync\<close> for a direction it does not support.\<close>

definition isUnsupported :: "error + path \<Rightarrow> bool" where
  "isUnsupported r =
     (case r of
        Inl err \<Rightarrow> startsWith (message err) ''Only Markdown to HTML conversion is supported.''
      | Inr out \<Rightarrow> False)"

text \<open>
  \<open>mdToHtml\<close> fails only when the source cannot be read, and then changes nothing;
  otherwise it returns the output path, and the file is there.
\<close>

lemma mdToHtml_fst:
  "fst (mdToHtml e mdPath templatePath outputPath st) =
     (case map_of (files st) mdPath of
        None \<Rightarrow> Inl (Error (''MD to HTML conversion failed: '' @ message (ENOENT mdPath)))
      | Some f \<Rightarrow> Inr (if truthy outputPath then the outputPath
                        else pathJoin (dirname mdPath) (basename mdPath ''.md'' @ ''.html'')))"
  by (simp add: mdToHtml_def readFile_def Let_def split_beta split: option.splits)

lemma mdToHtml_failed_state:
  "fst (mdToHtml e mdPath templatePath outputPath st) = Inl err \<Longrightarrow>
     snd (mdToHtml e mdPath templatePath outputPath st) = st"
  by (simp add: mdToHtml_def readFile_def Let_def split_beta split: option.splits)

lemma map_of_putFile: "map_of (putFile p f fs) p = Some f"
  by (induction fs) auto

lemma mdToHtml_written:
  "fst (mdToHtml e mdPath templatePath outputPath st) = Inr out \<Longrightarrow>
     pathExists (snd (mdToHtml e mdPath templatePath outputPath st)) out"
  by (auto simp: mdToHtml_def readFile_def Let_def split_beta pathExists_def writeFile_def
      map_of_putFile split: option.splits)

lemma mdToHtml_not_unsupported:
  "\<not> isUnsupported (fst (mdToHtml e mdPath templatePath outputPath st))"
  by (simp add: mdToHtml_fst isUnsupported_def split: option.splits)

text \<open>
  C10. \<open>sync\<close> looks at the extension in lower case: when that is \<open>.md\<close> the call is
  the Markdown to HTML conversion and its result is not the unsupported-direction error;
  when it is anything else the result is that error.
\<close>

theorem sync_extension_case_insensitive:
  "(toLowerCase (extname sourcePath) = ''.md'' \<longrightarrow>
      sync e sourcePath targetPath templatePath st
        = mdToHtml e sourcePath templatePath targetPath st
      \<and> \<not> isUnsupported (fst (sync e sourcePath targetPath templatePath st)))
   \<and> (toLowerCase (extname sourcePath) \<noteq> ''.md'' \<longrightarrow>
      isUnsupported (fst (sync e sourcePath targetPath templatePath st)))"
proof (intro conjI impI)
  assume md: "toLowerCase (extname sourcePath) = ''.md''"
  then show eq: "sync e sourcePath targetPath templatePath st
      = mdToHtml e sourcePath templatePath targetPath st"
    by (simp add: sync_def)
  show "\<not> isUnsupported (fst (sync e sourcePath targetPath templatePath st))"
    unfolding eq by (rule mdToHtml_not_unsupported)
next
  assume "toLowerCase (extname sourcePath) \<noteq> ''.md''"
  then show "isUnsupported (fst (sync e sourcePath targetPath templatePath st))"
    by (simp add: sync_def isUnsupported_def)
qed

theorem sync_extension_case_insensitive_witness:
  \<open>extname ''/docs/a.MD'' = ''.MD''
   \<and> sync sampleEnv ''/docs/a.MD'' (Some ''/docs/a.html'') None sampleState
       = mdToHtml sampleEnv ''/docs/a.MD'' None (Some ''/docs/a.html'') sampleState
   \<and> \<not> isUnsupported (fst (sync sampleEnv ''/docs/a.MD'' (Some ''/docs/a.html'') None sampleState))
   \<and> isUnsupported (fst (sync sampleEnv ''/docs/a.html'' (Some ''/docs/a.MD'') None sampleState))\<close>
proof -
  have up: \<open>toLowerCase (extname ''/docs/a.MD'') = ''.md''\<close>
    by (simp add: extname_def lastPart_def toLowerCase_def lowerChar_def)
  have html: \<open>toLowerCase (extname ''/docs/a.html'') \<noteq> ''.md''\<close>
    by (simp add: extname_def lastPart_def toLowerCase_def lowerChar_def)
  have ext: \<open>extname ''/docs/a.MD'' = ''.MD''\<close>
    by (simp add: extname_def lastPart_def)
  from sync_extension_case_insensitive
    [of \<open>''/docs/a.MD''\<close> sampleEnv \<open>Some ''/docs/a.html''\<close> None sampleState] up
  have a: \<open>sync sampleEnv ''/docs/a.MD'' (Some ''/docs/a.html'') None sampleState
       = mdToHtml sampleEnv ''/docs/a.MD'' None (Some ''/docs/a.html'') sampleState
   \<and> \<not> isUnsupported (fst (sync sampleEnv ''/docs/a.MD'' (Some ''/docs/a.html'') None sampleState))\<close>
    by blast
  from sync_extension_case_insensitive
    [of \<open>''/docs/a.html''\<close> sampleEnv \<open>Some ''/docs/a.MD''\<close> None sampleState] html
  have b: \<open>isUnsupported (fst (sync sampleEnv ''/docs/a.html'' (Some ''/docs/a.MD'') None sampleState))\<close>
    by blast
  from ext a b show ?thesis by blast
qed

text \<open>
  C8, counterexample. The extension \<open>.MD\<close> is another one than \<open>.md\<close>, and \<open>sync\<close>
  converts a source with it: the result is the output path, and the file is written.
\<close>

theorem sync_uppercase_extension_counterexample:
  \<open>extname ''/docs/a.MD'' \<noteq> ''.md''
   \<and> fst (sync sampleEnv ''/docs/a.MD'' (Some ''/docs/a.html'') None sampleState)
       = Inr ''/docs/a.html''
   \<and> pathExists (snd (sync sampleEnv ''/docs/a.MD'' (Some ''/docs/a.html'') None sampleState))
       ''/docs/a.html''\<close>
proof -
  have up: \<open>toLowerCase (extname ''/docs/a.MD'') = ''.md''\<close>
    by (simp add: extname_def lastPart_def toLowerCase_def lowerChar_def)
  have ext: \<open>extname ''/docs/a.MD'' \<noteq> ''.md''\<close>
    by (simp add: extname_def lastPart_def)
  have eq: \<open>sync sampleEnv ''/docs/a.MD'' (Some ''/docs/a.html'') None sampleState
       = mdToHtml sampleEnv ''/docs/a.MD'' None (Some ''/docs/a.html'') sampleState\<close>
    using up by (simp add: sync_def)
  have r: \<open>fst (mdToHtml sampleEnv ''/docs/a.MD'' None (Some ''/docs/a.html'') sampleState)
       = Inr ''/docs/a.html''\<close>
    by (simp add: mdToHtml_fst sampleState_def)
  from mdToHtml_written [OF r] ext r show ?thesis
    unfolding eq by simp
qed

text \<open>
  C8, amended. When the extension of the source is \<open>.md\<close> in any letter case,
  \<open>sync\<close> is the Markdown to HTML conversion; a result that is not an error is its
  output path (the target path when one is given), and the file is written. For every
  other extension, \<open>.html\<close> among them, \<open>sync\<close> fails with the unsupported-direction
  error, which names the extension in lower case, and changes nothing.
\<close>

theorem sync_dispatch:
  "(toLowerCase (extname sourcePath) = ''.md'' \<longrightarrow>
      sync e sourcePath targetPath templatePath st
        = mdToHtml e sourcePath templatePath targetPath st
      \<and> (\<forall>out. fst (sync e sourcePath targetPath templatePath st) = Inr out \<longrightarrow>
            out = (if truthy targetPath then the targetPath
                   else pathJoin (dirname sourcePath) (basename sourcePath ''.md'' @ ''.html''))
            \<and> pathExists (snd (sync e sourcePath targetPath templatePath st)) out))
   \<and> (toLowerCase (extname sourcePath) \<noteq> ''.md'' \<longrightarrow>
      sync e sourcePath targetPath templatePath st
        = (Inl (Error (''Only Markdown to HTML conversion is supported. Input: ''
                        @ toLowerCase (extname sourcePath))), st))
   \<and> sync e ''/docs/a.html'' targetPath templatePath st
        = (Inl (Error ''Only Markdown to HTML conversion is supported. Input: .html''), st)"
proof (intro conjI impI allI)
  assume md: "toLowerCase (extname sourcePath) = ''.md''"
  then show eq: "sync e sourcePath targetPath templatePath st
      = mdToHtml e sourcePath templatePath targetPath st"
    by (simp add: sync_def)
  fix out
  assume r: "fst (sync e sourcePath targetPath templatePath st) = Inr out"
  then show "out = (if truthy targetPath then the targetPath
                   else pathJoin (dirname sourcePath) (basename sourcePath ''.md'' @ ''.html''))"
    unfolding eq by (auto simp: mdToHtml_fst split: option.splits)
  from r show "pathExists (snd (sync e sourcePath targetPath templatePath st)) out"
    unfolding eq by (rule mdToHtml_written)
next
  assume "toLowerCase (extname sourcePath) \<noteq> ''.md''"
  then show "sync e sourcePath targetPath templatePath st
        = (Inl (Error (''Only Markdown to HTML conversion is supported. Input: ''
                        @ toLowerCase (extname sourcePath))), st)"
    by (simp add: sync_def)
next
  show "sync e ''/docs/a.html'' targetPath templatePath st
        = (Inl (Error ''Only Markdown to HTML conversion is supported. Input: .html''), st)"
    by (simp add: sync_def extname_def lastPart_def toLowerCase_def lowerChar_def)
qed

theorem sync_dispatch_witness:
  \<open>toLowerCase (extname ''/docs/b.md'') = ''.md''
   \<and> fst (sync sampleEnv ''/docs/b.md'' None None sampleState) = Inr ''/docs/b.html''
   \<and> pathExists (snd (sync sampleEnv ''/docs/b.md'' None None sampleState)) ''/docs/b.html''
   \<and> toLowerCase (extname ''/docs/b.pdf'') \<noteq> ''.md''
   \<and> sync sampleEnv ''/docs/b.pdf'' None None sampleState
        = (Inl (Error ''Only Markdown to HTML conversion is supported. Input: .pdf''), sampleState)\<close>
proof -
  have md: \<open>toLowerCase (extname ''/docs/b.md'') = ''.md''\<close>
    by (simp add: extname_def lastPart_def toLowerCase_def lowerChar_def)
  have pdf: \<open>toLowerCase (extname ''/docs/b.pdf'') = ''.pdf''\<close>
    by (simp add: extname_def lastPart_def toLowerCase_def lowerChar_def)
  have r: \<open>fst (sync sampleEnv ''/docs/b.md'' None None sampleState) = Inr ''/docs/b.html''\<close>
  proof -
    have \<open>sync sampleEnv ''/docs/b.md'' None None sampleState
        = mdToHtml sampleEnv ''/docs/b.md'' None None sampleState\<close>
      using md by (simp add: sync_def)
    then show ?thesis
      by (simp add: mdToHtml_fst sampleState_def dirname_def basename_def lastPart_def
          endsWith_def pathJoin_def normalize_def)
  qed
  from sync_dispatch [of \<open>''/docs/b.md''\<close> sampleEnv None None sampleState] md r
  have w: \<open>pathExists (snd (sync sampleEnv ''/docs/b.md'' None None sampleState)) ''/docs/b.html''\<close>
    by blast
  from sync_dispatch [of \<open>''/docs/b.pdf''\<close> sampleEnv None None sampleState] pdf
  have u: \<open>sync sampleEnv ''/docs/b.pdf'' None None sampleState
        = (Inl (Error ''Only Markdown to HTML conversion is supported. Input: .pdf''), sampleState)\<close>
    by simp
  from md r w pdf u show ?thesis by simp
qed


section \<open>Directory watch: when a change converts\<close>

text \<open>
  The counterpart of a changed file. The extension is found in lower case and taken off
  as it is written, so it stays in the name when it has an upper-case letter.
\<close>

lemma targetPathOf_examples:
  \<open>targetPathOf ''/docs/b.md'' = ''/docs/b.html''\<close>
  \<open>targetPathOf ''/docs/c.html'' = ''/docs/c.md''\<close>
  \<open>targetPathOf ''notes/d.Html'' = ''notes/d.Html.md''\<close>
  \<open>targetPathOf ''/docs/a.MD'' = ''/docs/a.MD.html''\<close>
  by (simp_all add: targetPathOf_def extname_def lastPart_def toLowerCase_def lowerChar_def
      dirname_def basename_def endsWith_def pathJoin_def normalize_def)

lemma sync_failed_state:
  "fst (sync e sourcePath targetPath templatePath st) = Inl err \<Longrightarrow>
     snd (sync e sourcePath targetPath templatePath st) = st"
  by (auto simp: sync_def Let_def mdToHtml_failed_state split: if_splits)

lemma pathExists_stat: "pathExists st p = (\<exists>t. stat p st = Inr t)"
  by (auto simp: pathExists_def stat_def split: option.splits)

text \<open>
  Without \<open>force\<close>, and with a target that exists and is not older than the source,
  \<open>handleFileChange\<close> returns before \<open>sync\<close> and leaves the state as it is.
\<close>

lemma handleFileChange_no_effect:
  assumes "\<not> force opts" "pathExists st (targetPathOf filePath)"
    and "\<not> (\<exists>s t. stat filePath st = Inr s \<and> stat (targetPathOf filePath) st = Inr t \<and> t < s)"
  shows "handleFileChange e filePath opts st = (Inr NotOurs, st)
        \<or> handleFileChange e filePath opts st = (Inr TargetCurrent, st)
        \<or> (\<exists>err. handleFileChange e filePath opts st = (Inl err, st))"
proof -
  from assms(2) obtain t where "stat (targetPathOf filePath) st = Inr t"
    by (auto simp: pathExists_stat)
  with assms show ?thesis
    by (cases "stat filePath st") (auto simp: handleFileChange_def Let_def)
qed

lemma handleFileChange_current:
  assumes "\<not> force opts" "stat filePath st = Inr s" "stat (targetPathOf filePath) st = Inr t"
    and "s \<le> t"
    and "toLowerCase (extname filePath) = ''.md'' \<or> toLowerCase (extname filePath) = ''.html''"
  shows "handleFileChange e filePath opts st = (Inr TargetCurrent, st)"
  using assms by (auto simp: handleFileChange_def Let_def pathExists_stat)

text \<open>The same for the change handler of a directory watch.\<close>

lemma onDirChange_no_effect:
  assumes "\<not> force opts" "pathExists st (targetPathOf filePath)"
    and "\<not> (\<exists>s t. stat filePath st = Inr s \<and> stat (targetPathOf filePath) st = Inr t \<and> t < s)"
  shows "snd (onDirChange e opts filePath (fw, st)) = st"
  using handleFileChange_no_effect [OF assms, of e]
  by (auto simp: onDirChange_def)

definition noForce :: options where
  "noForce = \<lparr>convertExisting = False, force = False\<rparr>"

text \<open>
  C5. When \<open>handleFileChange\<close> makes a conversion, or changes the state at all, then
  \<open>force\<close> is set, or the counterpart (\<open>targetPathOf\<close>: the path with the extension
  swapped) is missing, or its modification time is strictly below the source's. And
  without \<open>force\<close>, a change of a \<open>.md\<close> or \<open>.html\<close> file whose counterpart is not
  older (strictly newer, or of the same time) returns with nothing done.
\<close>

theorem handleFileChange_only_when_stale:
  "((\<exists>out. fst (handleFileChange e filePath opts st) = Inr (Synced out))
      \<or> snd (handleFileChange e filePath opts st) \<noteq> st
     \<longrightarrow> force opts \<or> \<not> pathExists st (targetPathOf filePath)
         \<or> (\<exists>s t. stat filePath st = Inr s \<and> stat (targetPathOf filePath) st = Inr t \<and> t < s))
   \<and> (\<not> force opts \<and> stat filePath st = Inr s \<and> stat (targetPathOf filePath) st = Inr t
        \<and> s \<le> t
        \<and> (toLowerCase (extname filePath) = ''.md'' \<or> toLowerCase (extname filePath) = ''.html'')
     \<longrightarrow> handleFileChange e filePath opts st = (Inr TargetCurrent, st))"
proof (intro conjI impI)
  assume eff: "(\<exists>out. fst (handleFileChange e filePath opts st) = Inr (Synced out))
      \<or> snd (handleFileChange e filePath opts st) \<noteq> st"
  show "force opts \<or> \<not> pathExists st (targetPathOf filePath)
         \<or> (\<exists>s t. stat filePath st = Inr s \<and> stat (targetPathOf filePath) st = Inr t \<and> t < s)"
  proof (rule ccontr)
    assume "\<not> (force opts \<or> \<not> pathExists st (targetPathOf filePath)
         \<or> (\<exists>s t. stat filePath st = Inr s \<and> stat (targetPathOf filePath) st = Inr t \<and> t < s))"
    then have "handleFileChange e filePath opts st = (Inr NotOurs, st)
        \<or> handleFileChange e filePath opts st = (Inr TargetCurrent, st)
        \<or> (\<exists>err. handleFileChange e filePath opts st = (Inl err, st))"
      using handleFileChange_no_effect [of opts st filePath e] by blast
    with eff show False by auto
  qed
next
  assume "\<not> force opts \<and> stat filePath st = Inr s \<and> stat (targetPathOf filePath) st = Inr t
        \<and> s \<le> t
        \<and> (toLowerCase (extname filePath) = ''.md'' \<or> toLowerCase (extname filePath) = ''.html'')"
  then show "handleFileChange e filePath opts st = (Inr TargetCurrent, st)"
    using handleFileChange_current [of opts filePath st s t e] by blast
qed

theorem handleFileChange_only_when_stale_witness:
  \<open>stat ''/docs/b.md'' sampleState = Inr 7 \<and> stat ''/docs/b.html'' sampleState = Inr 9
   \<and> handleFileChange sampleEnv ''/docs/b.md'' noForce sampleState = (Inr TargetCurrent, sampleState)
   \<and> stat ''/docs/c.md'' sampleState = Inr 12 \<and> stat ''/docs/c.html'' sampleState = Inr 3
   \<and> fst (handleFileChange sampleEnv ''/docs/c.md'' noForce sampleState) = Inr (Synced ''/docs/c.html'')\<close>
proof -
  have tb: \<open>targetPathOf ''/docs/b.md'' = ''/docs/b.html''\<close>
    and tc: \<open>targetPathOf ''/docs/c.md'' = ''/docs/c.html''\<close>
    by (simp_all add: targetPathOf_def extname_def lastPart_def toLowerCase_def lowerChar_def
        dirname_def basename_def endsWith_def pathJoin_def normalize_def)
  have eb: \<open>toLowerCase (extname ''/docs/b.md'') = ''.md''\<close>
    and ec: \<open>toLowerCase (extname ''/docs/c.md'') = ''.md''\<close>
    by (simp_all add: extname_def lastPart_def toLowerCase_def lowerChar_def)
  have sb: \<open>stat ''/docs/b.md'' sampleState = Inr 7\<close>
    and sbt: \<open>stat ''/docs/b.html'' sampleState = Inr 9\<close>
    and sc: \<open>stat ''/docs/c.md'' sampleState = Inr 12\<close>
    and sct: \<open>stat ''/docs/c.html'' sampleState = Inr 3\<close>
    by (simp_all add: stat_def sampleState_def)
  have nf: \<open>\<not> force noForce\<close> by (simp add: noForce_def)
  from handleFileChange_only_when_stale
    [of sampleEnv \<open>''/docs/b.md''\<close> noForce sampleState 7 9] nf sb sbt eb tb
  have b: \<open>handleFileChange sampleEnv ''/docs/b.md'' noForce sampleState
      = (Inr TargetCurrent, sampleState)\<close>
    by simp
  have sy: \<open>fst (sync sampleEnv ''/docs/c.md'' (Some ''/docs/c.html'') None sampleState)
      = Inr ''/docs/c.html''\<close>
  proof -
    have \<open>sync sampleEnv ''/docs/c.md'' (Some ''/docs/c.html'') None sampleState
        = mdToHtml sampleEnv ''/docs/c.md'' None (Some ''/docs/c.html'') sampleState\<close>
      using ec by (simp add: sync_def)
    then show ?thesis by (simp add: mdToHtml_fst sampleState_def)
  qed
  have c: \<open>fst (handleFileChange sampleEnv ''/docs/c.md'' noForce sampleState)
      = Inr (Synced ''/docs/c.html'')\<close>
    using sy
    by (simp add: handleFileChange_def Let_def ec tc sc sct nf pathExists_stat split_beta
        split: sum.splits)
  from sb sbt b sc sct c show ?thesis by simp
qed


section \<open>The title of the document\<close>

text \<open>
  \<open>findH1\<close> finds the first match of the expression: the text splits into what stands
  before the match, the match and the rest, and no match starts further left.
\<close>

lemma lazyUntil_decomp: "lazyUntil cl s = Some (t, r) \<Longrightarrow> s = t @ cl @ r"
proof (induction s arbitrary: t)
  case Nil
  then show ?case by simp
next
  case (Cons c cs)
  show ?case
  proof (cases "startsWith (c # cs) cl")
    case True
    have "startsWith xs p \<Longrightarrow> xs = p @ drop (length p) xs" for xs p
      by (induction xs p rule: startsWith.induct) auto
    from this [OF True] True Cons.prems show ?thesis by simp
  next
    case False
    with Cons.prems obtain t' where "lazyUntil cl cs = Some (t', r)" "t = c # t'"
      by (auto split: if_splits)
    with Cons.IH [of t'] show ?thesis by simp
  qed
qed

lemma matchH1At_decomp: "matchH1At s = Some (t, w, r) \<Longrightarrow> s = w @ r"
proof -
  assume m: "matchH1At s = Some (t, w, r)"
  then have sw: "startsWith s ''<h1''" and gt: "CHR ''>'' \<in> set (drop 3 s)"
    by (auto simp: matchH1At_def split: if_splits)
  have "startsWith xs p \<Longrightarrow> xs = p @ drop (length p) xs" for xs p
    by (induction xs p rule: startsWith.induct) auto
  from this [OF sw] have s: "s = ''<h1'' @ drop 3 s" by (simp add: numeral_3_eq_3)
  let ?P = "\<lambda>x. x \<noteq> CHR ''>''"
  from gt have "dropWhile ?P (drop 3 s) \<noteq> []" by auto
  moreover have "hd (dropWhile ?P (drop 3 s)) = CHR ''>''"
    using gt hd_dropWhile [of ?P "drop 3 s"] by auto
  ultimately have dw: "dropWhile ?P (drop 3 s) = CHR ''>'' # tl (dropWhile ?P (drop 3 s))"
    by (cases "dropWhile ?P (drop 3 s)") auto
  from m sw gt obtain t' where
    lu: "lazyUntil ''</h1>'' (tl (dropWhile ?P (drop 3 s))) = Some (t', r)"
    and w: "w = ''<h1'' @ takeWhile ?P (drop 3 s) @ ''>'' @ t' @ ''</h1>''"
    by (auto simp: matchH1At_def split: option.splits)
  have "drop 3 s = takeWhile ?P (drop 3 s) @ dropWhile ?P (drop 3 s)" by simp
  also have "\<dots> = takeWhile ?P (drop 3 s) @ CHR ''>'' # t' @ ''</h1>'' @ r"
    using dw lazyUntil_decomp [OF lu] by simp
  finally have "drop 3 s = takeWhile ?P (drop 3 s) @ CHR ''>'' # t' @ ''</h1>'' @ r" .
  with s w show ?thesis by (metis append.assoc append_Cons append_Nil)
qed

lemma findH1_first:
  "findH1 s = Some (pre, t, w, post) \<Longrightarrow>
     s = pre @ w @ post \<and> matchH1At (w @ post) = Some (t, w, post)
     \<and> (\<forall>k<length pre. matchH1At (drop k s) = None)"
proof (induction s arbitrary: pre)
  case Nil
  then show ?case by simp
next
  case (Cons c cs)
  show ?case
  proof (cases "matchH1At (c # cs)")
    case None
    with Cons.prems obtain pre' where f: "findH1 cs = Some (pre', t, w, post)" and p: "pre = c # pre'"
      by auto
    from Cons.IH [OF f] have ih: "cs = pre' @ w @ post" "matchH1At (w @ post) = Some (t, w, post)"
      "\<forall>k<length pre'. matchH1At (drop k cs) = None" by auto
    have "matchH1At (drop k (c # cs)) = None" if "k < length pre" for k
      using that None ih(3) p by (cases k) auto
    with ih p show ?thesis by simp
  next
    case (Some a)
    with Cons.prems have a: "matchH1At (c # cs) = Some (t, w, post)" and p: "pre = []"
      by (auto split: prod.splits)
    from matchH1At_decomp [OF a] a p show ?thesis by simp
  qed
qed

text \<open>
  C7, counterexample. A front matter line \<open>title:\<close> puts the key \<open>title\<close> into the
  metadata with an empty value; \<open>if (!title)\<close> then takes the text of the first
  \<open><h1>\<close>, not the value of the key.
\<close>

theorem resolveTitle_empty_title_counterexample:
  \<open>fst (extractMetadata ''---\<newline>title:\<newline>---\<newline># Bar'') ''title'' = Some []
   \<and> resolveTitle ''<h1>Bar</h1>'' fallbackTemplate
        (fst (extractMetadata ''---\<newline>title:\<newline>---\<newline># Bar'')) = ''Bar''\<close>
proof -
  have m: \<open>fst (extractMetadata ''---\<newline>title:\<newline>---\<newline># Bar'') ''title'' = Some []\<close>
    by (simp add: extractMetadata_def indexOfFrom_def addMetadataLine_def trim_def whiteSpace_def stripLeading.simps)
  have f: \<open>findH1 ''<h1>Bar</h1>'' = Some ([], ''Bar'', ''<h1>Bar</h1>'', [])\<close>
    by (simp add: matchH1At_def lineTerminatorAt_def)
  from m f show ?thesis by (simp add: resolveTitle_def)
qed

text \<open>An \<open><h1>\<close> without text gives the empty title: the template's title is not tried.\<close>

lemma resolveTitle_empty_h1:
  \<open>resolveTitle ''<h1></h1>'' tpl Map.empty = []\<close>
  by (simp add: resolveTitle_def matchH1At_def)

text \<open>
  C7, amended. The title is the metadata value of \<open>title\<close> when that is present and
  not empty; otherwise the text, with its tags stripped, of the first \<open><h1>\<close> of the
  fragment that \<open>generateTOC\<close> returns; otherwise the title of the template when that is
  not empty; otherwise \<open>Generated Document\<close>. It is the text of the \<open><title>\<close> element
  of the document.
\<close>

theorem resolveTitle_order:
  \<open>(metadata ''title'' = Some t \<and> t \<noteq> [] \<longrightarrow> resolveTitle pc tpl metadata = t)
   \<and> ((metadata ''title'' = None \<or> metadata ''title'' = Some [])
        \<and> findH1 pc = Some (pre, h, w, post)
      \<longrightarrow> resolveTitle pc tpl metadata = stripTags h)
   \<and> ((metadata ''title'' = None \<or> metadata ''title'' = Some [])
        \<and> findH1 pc = None \<and> title tpl \<noteq> []
      \<longrightarrow> resolveTitle pc tpl metadata = title tpl)
   \<and> ((metadata ''title'' = None \<or> metadata ''title'' = Some [])
        \<and> findH1 pc = None \<and> title tpl = []
      \<longrightarrow> resolveTitle pc tpl metadata = ''Generated Document'')
   \<and> (\<exists>rest. applyTemplate content tpl metadata =
          ''<!DOCTYPE html>\<newline><html lang="'' @ orElse (metadata ''lang'') ''zh-TW''
          @ ''">\<newline><head>\<newline>    '' @ head tpl @ ''\<newline>''
          @ ''    <title>'' @ resolveTitle (snd (generateTOC content)) tpl metadata @ ''</title>''
          @ rest)\<close>
proof (intro conjI impI)
  show \<open>\<exists>rest. applyTemplate content tpl metadata =
          ''<!DOCTYPE html>\<newline><html lang="'' @ orElse (metadata ''lang'') ''zh-TW''
          @ ''">\<newline><head>\<newline>    '' @ head tpl @ ''\<newline>''
          @ ''    <title>'' @ resolveTitle (snd (generateTOC content)) tpl metadata @ ''</title>''
          @ rest\<close>
    by (simp add: applyTemplate_def Let_def split_beta)
qed (auto simp: resolveTitle_def)


theorem resolveTitle_order_witness:
  \<open>resolveTitle ''<h1>Bar</h1>'' fallbackTemplate (Map.empty(''title'' \<mapsto> ''Foo'')) = ''Foo''
   \<and> resolveTitle ''<h1>B<i>a</i>r</h1>'' fallbackTemplate Map.empty = ''Bar''
   \<and> resolveTitle ''<p>x</p>'' fallbackTemplate Map.empty = ''Generated Document''\<close>
proof -
  have f1: \<open>findH1 ''<h1>B<i>a</i>r</h1>'' = Some ([], ''B<i>a</i>r'', ''<h1>B<i>a</i>r</h1>'', [])\<close>
    by (simp add: matchH1At_def lineTerminatorAt_def)
  have f2: \<open>findH1 ''<p>x</p>'' = None\<close>
    by (simp add: matchH1At_def)
  have st: \<open>stripTags ''B<i>a</i>r'' = ''Bar''\<close>
    by simp
  have ft: \<open>title fallbackTemplate \<noteq> []\<close> \<open>title fallbackTemplate = ''Generated Document''\<close>
    by (simp_all add: fallbackTemplate_def)
  from resolveTitle_order [where metadata = \<open>Map.empty(''title'' \<mapsto> ''Foo'')\<close>
      and t = \<open>''Foo''\<close> and pc = \<open>''<h1>Bar</h1>''\<close> and tpl = fallbackTemplate]
  have a: \<open>resolveTitle ''<h1>Bar</h1>'' fallbackTemplate (Map.empty(''title'' \<mapsto> ''Foo''))
      = ''Foo''\<close>
    by simp
  from resolveTitle_order [where metadata = Map.empty and pc = \<open>''<h1>B<i>a</i>r</h1>''\<close>
      and pre = \<open>[]\<close> and h = \<open>''B<i>a</i>r''\<close> and w = \<open>''<h1>B<i>a</i>r</h1>''\<close>
      and post = \<open>[]\<close> and tpl = fallbackTemplate] f1 st
  have b: \<open>resolveTitle ''<h1>B<i>a</i>r</h1>'' fallbackTemplate Map.empty = ''Bar''\<close>
    by simp
  from resolveTitle_order [where metadata = Map.empty and pc = \<open>''<p>x</p>''\<close>
      and tpl = fallbackTemplate] f2 ft
  have c: \<open>resolveTitle ''<p>x</p>'' fallbackTemplate Map.empty = ''Generated Document''\<close>
    by simp
  from a b c show ?thesis by simp
qed


section \<open>Front matter\<close>

text \<open>
  A declared pair: a key that is not empty and not \<open>__proto__\<close>, without colon, and a
  value, both on one line and without white space at their ends. \<open>pairLine\<close> is the line that declares it,
  \<open>frontMatterLines\<close> the lines of a block.
\<close>

definition declaredPair :: "string \<times> string \<Rightarrow> bool" where
  "declaredPair kv =
     (case kv of (k, v) \<Rightarrow>
        k \<noteq> [] \<and> k \<noteq> ''__proto__'' \<and> CHR '':'' \<notin> set k \<and> CHR 0x0A \<notin> set k
        \<and> CHR 0x0A \<notin> set v \<and> trim k = k \<and> trim v = v)"

definition pairLine :: "string \<times> string \<Rightarrow> string" where
  "pairLine kv = fst kv @ '': '' @ snd kv"

definition frontMatterLines :: "(string \<times> string) list \<Rightarrow> string" where
  "frontMatterLines kvs = concat (map (\<lambda>kv. pairLine kv @ [CHR 0x0A]) kvs)"

lemma splitOn_nonempty: "splitOn c s \<noteq> []"
  by (induction s) auto

lemma splitOn_sep: "c \<notin> set l \<Longrightarrow> splitOn c (l @ c # r) = l # splitOn c r"
  by (induction l) auto

lemma splitOn_none: "c \<notin> set l \<Longrightarrow> splitOn c l = [l]"
  by (induction l) auto

lemma joinWith_Cons: "joinWith sep ((x # y) # ys) = x # joinWith sep (y # ys)"
  by (cases ys) auto

lemma joinWith_splitOn: "joinWith [c] (splitOn c s) = s"
proof (induction s)
  case Nil
  show ?case by simp
next
  case (Cons x xs)
  obtain y ys where ys: "splitOn c xs = y # ys"
    using splitOn_nonempty [of c xs] by (cases "splitOn c xs") auto
  with Cons show ?case by (cases ys) (auto simp: joinWith_Cons)
qed

text \<open>The first colon splits a line; the text behind it is the value.\<close>

lemma addMetadataLine_first_colon:
  "addMetadataLine m line =
     (if takeWhile (\<lambda>x. x \<noteq> CHR '':'') line \<noteq> [] \<and> CHR '':'' \<in> set line
         \<and> trim (takeWhile (\<lambda>x. x \<noteq> CHR '':'') line) \<noteq> ''__proto__''
      then m(trim (takeWhile (\<lambda>x. x \<noteq> CHR '':'') line)
               \<mapsto> trim (tl (dropWhile (\<lambda>x. x \<noteq> CHR '':'') line)))
      else m)"
proof (cases "CHR '':'' \<in> set line")
  case False
  then show ?thesis by (simp add: addMetadataLine_def splitOn_none)
next
  case True
  let ?P = "\<lambda>x. x \<noteq> CHR '':''"
  from True have "dropWhile ?P line \<noteq> []" by auto
  moreover have "hd (dropWhile ?P line) = CHR '':''"
    using True hd_dropWhile [of ?P line] by auto
  ultimately have "line = takeWhile ?P line @ CHR '':'' # tl (dropWhile ?P line)"
    by (metis takeWhile_dropWhile_id list.collapse)
  moreover have "CHR '':'' \<notin> set (takeWhile ?P line)"
    by (auto dest: set_takeWhileD)
  ultimately have sp: "splitOn CHR '':'' line
      = takeWhile ?P line # splitOn CHR '':'' (tl (dropWhile ?P line))"
    using splitOn_sep [of "CHR '':''" "takeWhile ?P line" "tl (dropWhile ?P line)"] by simp
  show ?thesis
    using True by (simp add: addMetadataLine_def sp splitOn_nonempty joinWith_splitOn)
qed

lemma addMetadataLine_empty: "addMetadataLine m [] = m"
  by (simp add: addMetadataLine_def)

lemma trim_blank: "trim (CHR '' '' # v) = trim v"
proof -
  have "stripLeading whiteSpace (CHR '' '' # v) = stripLeading whiteSpace v"
    by (subst stripLeading.simps) (simp add: whiteSpace_def)
  then show ?thesis by (simp add: trim_def)
qed

lemma addMetadataLine_declared:
  "declaredPair (k, v) \<Longrightarrow> addMetadataLine m (pairLine (k, v)) = m(k \<mapsto> v)"
proof -
  assume d: "declaredPair (k, v)"
  then have nk: "CHR '':'' \<notin> set k" "k \<noteq> []" "trim k = k" "trim v = v" "k \<noteq> ''__proto__''"
    by (auto simp: declaredPair_def)
  have tw: "takeWhile (\<lambda>x. x \<noteq> CHR '':'') (k @ CHR '':'' # CHR '' '' # v) = k"
    using nk by (auto simp: takeWhile_tail)
  have dw: "dropWhile (\<lambda>x. x \<noteq> CHR '':'') (k @ CHR '':'' # CHR '' '' # v)
      = CHR '':'' # CHR '' '' # v"
    using nk by (auto simp: dropWhile_append3)
  show ?thesis
    using nk
    by (simp add: pairLine_def addMetadataLine_first_colon tw dw trim_blank
        del: takeWhile_append dropWhile_append)
qed

lemma splitOn_frontMatterLines:
  "list_all declaredPair kvs \<Longrightarrow>
     splitOn CHR 0x0A (frontMatterLines kvs) = map pairLine kvs @ [[]]"
proof (induction kvs)
  case Nil
  show ?case by (simp add: frontMatterLines_def)
next
  case (Cons kv kvs)
  obtain k v where kv: "kv = (k, v)" by (cases kv)
  with Cons.prems have "CHR 0x0A \<notin> set (pairLine kv)"
    by (auto simp: declaredPair_def pairLine_def)
  from splitOn_sep [OF this, of "frontMatterLines kvs"] Cons kv show ?case
    by (simp add: frontMatterLines_def)
qed

lemma foldl_declared:
  "list_all declaredPair kvs \<Longrightarrow>
     foldl addMetadataLine m (map pairLine kvs) = m ++ map_of (rev kvs)"
proof (induction kvs arbitrary: m)
  case Nil
  show ?case by simp
next
  case (Cons kv kvs)
  obtain k v where kv: "kv = (k, v)" by (cases kv)
  with Cons.prems have d: "declaredPair (k, v)" and ds: "list_all declaredPair kvs" by auto
  have "foldl addMetadataLine m (map pairLine (kv # kvs))
      = foldl addMetadataLine (m(k \<mapsto> v)) (map pairLine kvs)"
    using addMetadataLine_declared [OF d, of m] kv by simp
  also have "\<dots> = m(k \<mapsto> v) ++ map_of (rev kvs)"
    by (rule Cons.IH [OF ds])
  also have "\<dots> = m ++ map_of (rev (kv # kvs))"
    using kv by (intro ext) (simp add: map_add_def split: option.splits)
  finally show ?case .
qed


text \<open>
  The file that \<open>mdToHtml\<close> writes is the template applied to the rendered body and
  the metadata of the source: the block itself is not rendered.
\<close>

lemma mdToHtml_output:
  "map_of (files st) mdPath = Some f \<Longrightarrow>
   fst (mdToHtml e mdPath templatePath outputPath st) = Inr out \<Longrightarrow>
     \<exists>tpl. map_option fileData
             (map_of (files (snd (mdToHtml e mdPath templatePath outputPath st))) out)
       = Some (applyTemplate (marked e converterRenderer (snd (extractMetadata (fileData f))))
                 tpl (fst (extractMetadata (fileData f))))"
  by (auto simp: mdToHtml_def readFile_def Let_def split_beta writeFile_def map_of_putFile)

text \<open>
  A source that does not start with \<open>---\<close>, or that has no further \<open>---\<close> behind
  the first, gives the empty mapping and is the body as it is. A source that is
  \<open>---\<close>, a line break, the lines \<open>key: value\<close> of declared pairs, \<open>---\<close> and a
  rest, in which the closing \<open>---\<close> is the first one behind the opening, gives the
  mapping of exactly these pairs (the last value of a key that is declared twice) and the
  trimmed rest as the body.
\<close>

lemma extractMetadata_block:
  \<open>(\<not> startsWith md ''---'' \<longrightarrow> extractMetadata md = (Map.empty, md))
   \<and> (startsWith md ''---'' \<and> indexOfFrom md ''---'' 3 = None
        \<longrightarrow> extractMetadata md = (Map.empty, md))
   \<and> (list_all declaredPair kvs
        \<and> indexOf (CHR 0x0A # frontMatterLines kvs @ ''---'' @ rest) ''---''
            = Some (Suc (length (frontMatterLines kvs)))
        \<longrightarrow> extractMetadata (''---'' @ CHR 0x0A # frontMatterLines kvs @ ''---'' @ rest)
            = (map_of (rev kvs), trim rest))\<close>
proof (intro conjI impI)
  assume "\<not> startsWith md ''---''"
  then show "extractMetadata md = (Map.empty, md)"
    by (simp add: extractMetadata_def)
next
  assume "startsWith md ''---'' \<and> indexOfFrom md ''---'' 3 = None"
  then show "extractMetadata md = (Map.empty, md)"
    by (simp add: extractMetadata_def)
next
  let ?mt = "CHR 0x0A # frontMatterLines kvs"
  let ?md = "''---'' @ ?mt @ ''---'' @ rest"
  assume a: "list_all declaredPair kvs
        \<and> indexOf (CHR 0x0A # frontMatterLines kvs @ ''---'' @ rest) ''---''
            = Some (Suc (length (frontMatterLines kvs)))"
  have d3: "drop 3 ?md = ?mt @ ''---'' @ rest" by simp
  from a have ix: "indexOfFrom ?md ''---'' 3 = Some (length ?mt + 3)"
    unfolding indexOfFrom_def d3 by simp
  have sw: "startsWith ?md ''---''" by simp
  have tk: "take (length ?mt + 3 - 3) (drop 3 ?md) = ?mt"
    unfolding d3 by simp
  have dr: "drop (length ?mt + 3 + 3) ?md = rest"
  proof -
    have "?md = (''---'' @ ?mt @ ''---'') @ rest" by simp
    moreover have "length (''---'' @ ?mt @ ''---'') = length ?mt + 3 + 3" by simp
    ultimately show ?thesis by (metis append_eq_conv_conj)
  qed
  from a have la: "list_all declaredPair kvs" by simp
  have fl: "foldl addMetadataLine Map.empty (splitOn CHR 0x0A ?mt) = map_of (rev kvs)"
    by (simp add: splitOn_frontMatterLines [OF la] addMetadataLine_empty foldl_declared [OF la])
  have "extractMetadata ?md = (foldl addMetadataLine Map.empty (splitOn CHR 0x0A ?mt), trim rest)"
    unfolding extractMetadata_def using sw ix tk dr by (simp add: Let_def)
  with fl show "extractMetadata (''---'' @ CHR 0x0A # frontMatterLines kvs @ ''---'' @ rest)
            = (map_of (rev kvs), trim rest)"
    by simp
qed

lemma extractMetadata_block_examples:
  \<open>extractMetadata ''---\<newline>title: Foo\<newline>lang: en\<newline>---\<newline># Bar''
     = (map_of [(''lang'', ''en''), (''title'', ''Foo'')], ''# Bar'')
   \<and> extractMetadata ''# Bar'' = (Map.empty, ''# Bar'')
   \<and> extractMetadata ''---\<newline>title: x'' = (Map.empty, ''---\<newline>title: x'')\<close>
proof -
  let ?kvs = \<open>[(''title'', ''Foo''), (''lang'', ''en'')]\<close>
  have d: \<open>list_all declaredPair ?kvs\<close>
    by (simp add: declaredPair_def trim_def whiteSpace_def stripLeading.simps)
  have ix: \<open>indexOf (CHR 0x0A # frontMatterLines ?kvs @ ''---'' @ ''\<newline># Bar'') ''---''
      = Some (Suc (length (frontMatterLines ?kvs)))\<close>
    by (simp add: frontMatterLines_def pairLine_def)
  from extractMetadata_block [where kvs = ?kvs and rest = \<open>''\<newline># Bar''\<close>] d ix
  have a: \<open>extractMetadata ''---\<newline>title: Foo\<newline>lang: en\<newline>---\<newline># Bar''
     = (map_of [(''lang'', ''en''), (''title'', ''Foo'')], ''# Bar'')\<close>
    by (simp add: frontMatterLines_def pairLine_def trim_def whiteSpace_def stripLeading.simps)
  from extractMetadata_block [where md = \<open>''# Bar''\<close>]
  have b: \<open>extractMetadata ''# Bar'' = (Map.empty, ''# Bar'')\<close>
    by simp
  have n: \<open>indexOfFrom ''---\<newline>title: x'' ''---'' 3 = None\<close>
    by (simp add: indexOfFrom_def)
  from extractMetadata_block [where md = \<open>''---\<newline>title: x''\<close>] n
  have c: \<open>extractMetadata ''---\<newline>title: x'' = (Map.empty, ''---\<newline>title: x'')\<close>
    by simp
  from a b c show ?thesis by simp
qed

text \<open>
  The key \<open>__proto__\<close> is not stored: the assignment of a text to it adds no
  property to the metadata object.
\<close>

lemma extractMetadata_proto_key:
  \<open>extractMetadata ''---\<newline>__proto__: x\<newline>---\<newline>body'' = (Map.empty, ''body'')\<close>
  by (simp add: extractMetadata_def indexOfFrom_def addMetadataLine_def trim_def whiteSpace_def
      stripLeading.simps)

text \<open>
  C6. The block of a source that starts with a line \<open>---\<close> is closed by the next
  line that starts with \<open>---\<close>; its lines are the declared pairs, and the body is what
  follows the closing line. \<open>mdToHtml\<close> looks for the end of the block with
  \<open>indexOf('---', 3)\<close>, which finds the first \<open>---\<close> behind the opening one wherever
  it stands. In the source
  \<^verbatim>\<open>---\<close>, \<^verbatim>\<open>title: a---b\<close>, \<^verbatim>\<open>---\<close>, \<^verbatim>\<open>body\<close>
  the block is closed by the third line and declares the title \<open>a---b\<close>. The code ends
  the block inside the value: the title is \<open>a\<close>, and the rest of the value and the
  closing line are part of the body that is rendered.
\<close>

theorem extractMetadata_dashes_in_value_end_the_block:
  \<open>extractMetadata ''---\<newline>title: a---b\<newline>---\<newline>body''
     = ([''title'' \<mapsto> ''a''], ''b\<newline>---\<newline>body'')\<close>
  by (simp add: extractMetadata_def indexOfFrom_def addMetadataLine_def trim_def whiteSpace_def
      stripLeading.simps)

end
